theory Spec2Isabelle
  imports Main "HOL-Library.Word" "HOL-Library.Sublist" "HOL-Library.AList"
begin

text \<open>
  The Cloudflare worker \<open>index.js\<close> of unifi-cloudflare-ddns: a router
  (\<open>handleRequest\<close>), the parser of HTTP Basic credentials (\<open>basicAuthentication\<close>),
  the check of the query (\<open>verifyParameters\<close>), a client of the Cloudflare API with three
  operations (\<open>findZone\<close>, \<open>findRecord\<close>, \<open>updateRecord\<close>), their sequence
  (\<open>informAPI\<close>) and the \<open>catch\<close> of the \<open>fetch\<close> listener, which renders every
  failure. A thrown exception is the \<open>Inl\<close> of a sum; the calls of \<open>fetch\<close> are
  recorded in a list that is passed along.
\<close>

section \<open>JavaScript strings\<close>

text \<open>
  A JavaScript string is a sequence of 16-bit code units; \<open>length\<close>, \<open>indexOf\<close>,
  \<open>substring\<close> and the regular expression of \<open>basicAuthentication\<close> all work on code
  units. The literals of \<open>index.js\<close> are ASCII, so they are written as HOL strings and
  injected with \<open>js\<close>.
\<close>

type_synonym code_unit = "16 word"
type_synonym jsstring = "code_unit list"

definition js :: "string \<Rightarrow> jsstring" where
  "js s = map (\<lambda>c. of_nat (of_char c)) s"

text \<open>\<open>s.indexOf(c)\<close> for a single code unit: \<open>None\<close> stands for \<open>-1\<close>.\<close>

fun indexOf :: "jsstring \<Rightarrow> code_unit \<Rightarrow> nat option" where
  "indexOf [] c = None"
| "indexOf (x # xs) c =
     (if x = c then Some 0 else map_option Suc (indexOf xs c))"

text \<open>\<open>s.substring(a, b)\<close> and \<open>s.substring(a)\<close> for \<open>a \<le> b\<close>.\<close>

definition substring :: "jsstring \<Rightarrow> nat \<Rightarrow> nat \<Rightarrow> jsstring" where
  "substring s a b = take (b - a) (drop a s)"

definition substring_from :: "jsstring \<Rightarrow> nat \<Rightarrow> jsstring" where
  "substring_from s a = drop a s"

text \<open>\<open>s.split(sep)\<close> for a single code unit: always at least one piece.\<close>

fun split :: "jsstring \<Rightarrow> code_unit \<Rightarrow> jsstring list" where
  "split [] sep = [[]]"
| "split (x # xs) sep =
     (if x = sep then [] # split xs sep
      else (case split xs sep of
              [] \<Rightarrow> [[x]]
            | p # ps \<Rightarrow> (x # p) # ps))"

text \<open>The regular expression \<^verbatim>\<open>/[\0-\x1F\x7F]/\<close>: one code unit of the class, and the
  test of a whole string.\<close>

definition CTL :: "code_unit \<Rightarrow> bool" where
  "CTL c \<longleftrightarrow> c \<le> 0x1F \<or> c = 0x7F"

definition test_CTL :: "jsstring \<Rightarrow> bool" where
  "test_CTL s \<longleftrightarrow> list_ex CTL s"

section \<open>Platform functions used by the worker\<close>

text \<open>
  \<open>atob\<close> is the forgiving-base64 decoder of the HTML standard: ASCII whitespace is
  removed, up to two padding signs are removed when the length is a multiple of four, a
  length of 1 modulo 4 or a code unit outside the alphabet is a failure (the runtime throws
  a \<open>DOMException\<close>), and each group of four sextets gives three bytes, with the spare
  bits of a last short group dropped. The result is a binary string: one code unit below
  256 for each byte.
\<close>

definition ascii_whitespace :: "code_unit \<Rightarrow> bool" where
  "ascii_whitespace c \<longleftrightarrow> c = 0x09 \<or> c = 0x0A \<or> c = 0x0C \<or> c = 0x0D \<or> c = 0x20"

definition base64_value :: "code_unit \<Rightarrow> nat option" where
  "base64_value c =
     (let n = unat c in
      if 65 \<le> n \<and> n \<le> 90 then Some (n - 65)
      else if 97 \<le> n \<and> n \<le> 122 then Some (n - 71)
      else if 48 \<le> n \<and> n \<le> 57 then Some (n + 4)
      else if n = 43 then Some 62
      else if n = 47 then Some 63
      else None)"

definition strip_padding :: "jsstring \<Rightarrow> jsstring" where
  "strip_padding d =
     (if length d mod 4 = 0 then
        (case rev d of
           a # b # r \<Rightarrow>
             if a = 0x3D \<and> b = 0x3D then rev r
             else if a = 0x3D then rev (b # r)
             else d
         | _ \<Rightarrow> d)
      else d)"

fun sextets_to_bytes :: "nat list \<Rightarrow> nat list" where
  "sextets_to_bytes (a # b # c # d # r) =
     (a * 4 + b div 16) # ((b mod 16) * 16 + c div 4) # ((c mod 4) * 64 + d)
       # sextets_to_bytes r"
| "sextets_to_bytes [a, b, c] = [a * 4 + b div 16, (b mod 16) * 16 + c div 4]"
| "sextets_to_bytes [a, b] = [a * 4 + b div 16]"
| "sextets_to_bytes _ = []"

definition atob :: "jsstring \<Rightarrow> jsstring option" where
  "atob data =
     (let d = strip_padding (filter (\<lambda>c. \<not> ascii_whitespace c) data) in
      if length d mod 4 = 1 then None
      else if list_ex (\<lambda>c. base64_value c = None) d then None
      else Some (map of_nat (sextets_to_bytes (map (\<lambda>c. the (base64_value c)) d))))"

text \<open>\<open>Uint8Array.from(s, (character) => character.charCodeAt(0))\<close>: each code unit
  is truncated to a byte.\<close>

definition Uint8Array_from :: "jsstring \<Rightarrow> 8 word list" where
  "Uint8Array_from s = map ucast s"

text \<open>
  The number of bytes of a string that is the body of a \<open>Response\<close>: the body is
  encoded as UTF-8. A code unit below \<open>0x80\<close> is one byte, one below \<open>0x800\<close> two, a
  surrogate pair four, and any other code unit three (a surrogate without its partner is
  sent as \<open>U+FFFD\<close>).
\<close>

definition utf8_units :: "code_unit \<Rightarrow> nat" where
  "utf8_units c = (if c < 0x80 then 1 else if c < 0x800 then 2 else 3)"

fun utf8_length :: "jsstring \<Rightarrow> nat" where
  "utf8_length [] = 0"
| "utf8_length [c] = utf8_units c"
| "utf8_length (c # d # r) =
     (if 0xD800 \<le> c \<and> c \<le> 0xDBFF \<and> 0xDC00 \<le> d \<and> d \<le> 0xDFFF
      then 4 + utf8_length r
      else utf8_units c + utf8_length (d # r))"

section \<open>Exceptions\<close>

text \<open>
  The three exception classes of \<open>index.js\<close> carry \<open>status\<close>, \<open>statusText\<close> and
  \<open>reason\<close>; they do not extend \<open>Error\<close>, so they have no \<open>stack\<close>. Every other
  value that can be thrown is an error object made by the runtime (the \<open>DOMException\<close>
  of \<open>atob\<close>, the \<open>TypeError\<close> of a property access on \<open>null\<close> or \<open>undefined\<close>,
  a rejection of \<open>fetch\<close> or of \<open>response.json()\<close>): it has none of the three fields,
  and \<open>RuntimeError\<close> carries its \<open>stack\<close> property, when it has one.
\<close>

datatype exn =
    UnauthorizedException jsstring
  | BadRequestException jsstring
  | CloudflareApiException jsstring
  | RuntimeError "jsstring option"

fun err_status :: "exn \<Rightarrow> nat option" where
  "err_status (UnauthorizedException r) = Some 401"
| "err_status (BadRequestException r) = Some 400"
| "err_status (CloudflareApiException r) = Some 500"
| "err_status (RuntimeError st) = None"

fun err_statusText :: "exn \<Rightarrow> jsstring option" where
  "err_statusText (UnauthorizedException r) = Some (js ''Unauthorized'')"
| "err_statusText (BadRequestException r) = Some (js ''Bad Request'')"
| "err_statusText (CloudflareApiException r) = Some (js ''Internal Server Error'')"
| "err_statusText (RuntimeError st) = None"

fun err_reason :: "exn \<Rightarrow> jsstring option" where
  "err_reason (UnauthorizedException r) = Some r"
| "err_reason (BadRequestException r) = Some r"
| "err_reason (CloudflareApiException r) = Some r"
| "err_reason (RuntimeError st) = None"

fun err_stack :: "exn \<Rightarrow> jsstring option" where
  "err_stack (RuntimeError st) = st"
| "err_stack _ = None"

section \<open>Requests and responses\<close>

text \<open>
  \<open>URL\<close> holds what \<open>new URL(request.url)\<close> gives: the protocol with its colon, the
  path, and the query parameters in order (\<open>searchParams.get\<close> returns the first value of
  a name, \<open>None\<close> for \<open>null\<close>). The headers of a request are a map from the
  lower-case header name, as the \<open>Headers\<close> class looks names up without regard to case.
\<close>

record URL =
  protocol :: jsstring
  pathname :: jsstring
  searchParams :: "(jsstring \<times> jsstring) list"

record request =
  url :: URL
  headers :: "jsstring \<rightharpoonup> jsstring"

definition searchParams_get :: "(jsstring \<times> jsstring) list \<Rightarrow> jsstring \<Rightarrow> jsstring option" where
  "searchParams_get ps name = map_of ps name"

text \<open>A response is the body and the init object given to \<open>new Response\<close>; a header
  value is a string or, for \<open>Content-Length\<close>, the number the code passes.\<close>

datatype header_value = HString jsstring | HNumber nat

record response =
  resp_body :: "jsstring option"
  status :: nat
  statusText :: "jsstring option"
  resp_headers :: "(jsstring \<times> header_value) list"

section \<open>JSON values\<close>

text \<open>
  What \<open>response.json()\<close> gives, and \<open>undefined\<close>. A number is represented by the
  string that \<open>ToString\<close> gives for it (so zero is \<open>0\<close>); an object by its own
  properties in insertion order.
\<close>

datatype jsval =
    JUndefined
  | JNull
  | JBool bool
  | JNumber jsstring
  | JString jsstring
  | JArray "jsval list"
  | JObject "(jsstring \<times> jsval) list"

text \<open>
  \<open>v.k\<close> for the property names \<open>success\<close>, \<open>result\<close>, \<open>id\<close> and
  \<open>zone_id\<close>, which no prototype defines: \<open>None\<close> is the \<open>TypeError\<close> of a read on
  \<open>null\<close> or \<open>undefined\<close>.
\<close>

fun get_property :: "jsval \<Rightarrow> jsstring \<Rightarrow> jsval option" where
  "get_property JUndefined k = None"
| "get_property JNull k = None"
| "get_property (JObject ps) k =
     Some (case map_of ps k of None \<Rightarrow> JUndefined | Some v \<Rightarrow> v)"
| "get_property v k = Some JUndefined"

text \<open>\<open>v.length === 0\<close>.\<close>

fun length_is_zero :: "jsval \<Rightarrow> bool option" where
  "length_is_zero JUndefined = None"
| "length_is_zero JNull = None"
| "length_is_zero (JArray xs) = Some (xs = [])"
| "length_is_zero (JString s) = Some (s = [])"
| "length_is_zero (JObject ps) =
     Some (map_of ps (js ''length'') = Some (JNumber (js ''0'')))"
| "length_is_zero v = Some False"

text \<open>\<open>v[0]\<close>.\<close>

fun element0 :: "jsval \<Rightarrow> jsval option" where
  "element0 JUndefined = None"
| "element0 JNull = None"
| "element0 (JArray xs) = Some (case xs of [] \<Rightarrow> JUndefined | x # r \<Rightarrow> x)"
| "element0 (JString s) = Some (case s of [] \<Rightarrow> JUndefined | c # r \<Rightarrow> JString [c])"
| "element0 (JObject ps) =
     Some (case map_of ps (js ''0'') of None \<Rightarrow> JUndefined | Some v \<Rightarrow> v)"
| "element0 v = Some JUndefined"

text \<open>
  The conversion of a template literal, \<^verbatim>\<open>`${v}`\<close>. An array joins its elements with
  commas, \<open>null\<close> and \<open>undefined\<close> elements giving the empty string. A parsed object
  gives \<open>[object Object]\<close>, unless it has an own property \<open>toString\<close>: that is not a
  function, \<open>valueOf\<close> gives no primitive, and the conversion throws a \<open>TypeError\<close>
  (\<open>None\<close>).
\<close>

fun join :: "jsstring list \<Rightarrow> jsstring" where
  "join [] = []"
| "join [s] = s"
| "join (s # t # r) = s @ js '','' @ join (t # r)"

fun ToString :: "jsval \<Rightarrow> jsstring option" where
  "ToString JUndefined = Some (js ''undefined'')"
| "ToString JNull = Some (js ''null'')"
| "ToString (JBool b) = Some (if b then js ''true'' else js ''false'')"
| "ToString (JNumber n) = Some n"
| "ToString (JString s) = Some s"
| "ToString (JArray xs) =
     (let parts = map (\<lambda>x. if x = JUndefined \<or> x = JNull then Some [] else ToString x) xs
      in if list_ex (\<lambda>p. p = None) parts then None else Some (join (map the parts)))"
| "ToString (JObject ps) =
     (if map_of ps (js ''toString'') \<noteq> None then None else Some (js ''[object Object]''))"

text \<open>
  \<open>record.content = value\<close>, in the body of \<open>class Cloudflare\<close>, which is
  strict-mode code: a \<open>TypeError\<close> (\<open>None\<close>) on \<open>null\<close> and \<open>undefined\<close>, and
  on a string, a number or a boolean as well; on an array it adds a property that is
  neither an element nor serialised.
\<close>

fun set_content :: "jsval \<Rightarrow> jsval \<Rightarrow> jsval option" where
  "set_content (JObject ps) v = Some (JObject (AList.update (js ''content'') v ps))"
| "set_content (JArray xs) v = Some (JArray xs)"
| "set_content r v = None"

section \<open>The provider and the runtime\<close>

text \<open>
  A call of \<open>fetch\<close>: the URL, the \<open>method\<close> of the init object when given, its
  headers, and the value that \<open>JSON.stringify\<close> serialises into the body. The outcome
  of \<open>fetch\<close> followed by \<open>response.json()\<close> is the parsed body, or a rejection with
  the runtime's error (its \<open>stack\<close>).
\<close>

record fetch_req =
  fetch_url :: jsstring
  fetch_method :: "jsstring option"
  fetch_headers :: "(jsstring \<times> jsstring) list"
  fetch_body :: "jsval option"

datatype fetch_outcome = Rejected "jsstring option" | Json jsval

text \<open>
  The runtime: \<open>decode\<close> is \<open>new TextDecoder().decode(buffer).normalize()\<close>, the
  UTF-8 decoder followed by Unicode normalisation; \<open>fetch\<close> answers a call, given the
  calls made before it; the two stacks are the \<open>stack\<close> properties of the
  \<open>DOMException\<close> of \<open>atob\<close> and of a \<open>TypeError\<close>.
\<close>

record platform =
  decode :: "8 word list \<Rightarrow> jsstring"
  fetch :: "fetch_req list \<Rightarrow> fetch_req \<Rightarrow> fetch_outcome"
  DOMException_stack :: "jsstring option"
  TypeError_stack :: "jsstring option"

definition TypeError :: "platform \<Rightarrow> exn" where
  "TypeError plat = RuntimeError (TypeError_stack plat)"

text \<open>The calls of \<open>fetch\<close> made so far are the state: a call is answered and
  appended, whether the runtime sends it to the provider or rejects it.\<close>

definition do_fetch :: "platform \<Rightarrow> fetch_req \<Rightarrow> fetch_req list \<Rightarrow> fetch_outcome \<times> fetch_req list" where
  "do_fetch plat rq log = (fetch plat log rq, log @ [rq])"

section \<open>Credential parsing and parameter validation\<close>

text \<open>
  A header without a space leaves \<open>encoded\<close> undefined, and \<open>atob\<close> then reads the
  string \<open>undefined\<close>.
\<close>

definition basicAuthentication :: "platform \<Rightarrow> request \<Rightarrow> exn + (jsstring \<times> jsstring)" where
  "basicAuthentication plat request =
     (case headers request (js ''authorization'') of
        None \<Rightarrow> Inl (TypeError plat)
      | Some Authorization \<Rightarrow>
          (let parts = split Authorization 0x20;
               encoded = (if 2 \<le> length parts then parts ! 1 else js ''undefined'')
           in case atob encoded of
                None \<Rightarrow> Inl (RuntimeError (DOMException_stack plat))
              | Some binary \<Rightarrow>
                  (let buffer = Uint8Array_from binary;
                       decoded = decode plat buffer;
                       index = indexOf decoded 0x3A
                   in if index = None \<or> test_CTL decoded
                      then Inl (BadRequestException (js ''Invalid authorization value.''))
                      else Inr (substring decoded 0 (the index),
                                substring_from decoded (the index + 1)))))"

text \<open>An object reference is truthy, so the first test of \<open>verifyParameters\<close> never
  fires on a \<open>URL\<close> object.\<close>

definition object_truthy :: "'a \<Rightarrow> bool" where
  "object_truthy x = True"

definition verifyParameters :: "URL \<Rightarrow> exn + unit" where
  "verifyParameters u =
     (if \<not> object_truthy (searchParams u)
      then Inl (BadRequestException (js ''You must include proper query parameters''))
      else (case searchParams_get (searchParams u) (js ''hostname'') of
              None \<Rightarrow> Inl (BadRequestException (js ''You must specify a hostname''))
            | Some h \<Rightarrow>
                if h = [] then Inl (BadRequestException (js ''You must specify a hostname''))
                else Inr ()))"

section \<open>The Cloudflare client\<close>

text \<open>The constructor keeps a truthy token only; \<open>this.token\<close> is otherwise
  undefined, and the template of the header then writes \<open>undefined\<close>.\<close>

definition Cloudflare :: "jsstring \<Rightarrow> jsstring option" where
  "Cloudflare token = (if token \<noteq> [] then Some token else None)"

definition api_headers :: "jsstring option \<Rightarrow> (jsstring \<times> jsstring) list" where
  "api_headers tok =
     [(js ''Content-Type'', js ''application/json''),
      (js ''Authorization'',
       js ''Bearer '' @ (case tok of None \<Rightarrow> js ''undefined'' | Some t \<Rightarrow> t))]"

definition cloudflare_url :: jsstring where
  "cloudflare_url = js ''https://api.cloudflare.com/client/v4''"

definition quoted :: "jsstring \<Rightarrow> jsstring" where
  "quoted name = [0x27] @ name @ [0x27]"

text \<open>The three lines that \<open>findZone\<close> and \<open>findRecord\<close> share after
  \<open>response.json()\<close>: the test of the body and \<open>body.result[0]\<close>.\<close>

definition first_result :: "platform \<Rightarrow> jsval \<Rightarrow> jsstring \<Rightarrow> exn + jsval" where
  "first_result plat body failure =
     (case get_property body (js ''success'') of
        None \<Rightarrow> Inl (TypeError plat)
      | Some s \<Rightarrow>
          if s \<noteq> JBool True then Inl (CloudflareApiException failure)
          else (case get_property body (js ''result'') of
                  None \<Rightarrow> Inl (TypeError plat)
                | Some r \<Rightarrow>
                    (case length_is_zero r of
                       None \<Rightarrow> Inl (TypeError plat)
                     | Some True \<Rightarrow> Inl (CloudflareApiException failure)
                     | Some False \<Rightarrow>
                         (case element0 r of
                            None \<Rightarrow> Inl (TypeError plat)
                          | Some x \<Rightarrow> Inr x))))"

definition zone_request :: "jsstring option \<Rightarrow> jsstring \<Rightarrow> fetch_req" where
  "zone_request tok name =
     \<lparr>fetch_url = cloudflare_url @ js ''/zones?name='' @ name,
      fetch_method = None, fetch_headers = api_headers tok, fetch_body = None\<rparr>"

definition findZone ::
  "platform \<Rightarrow> jsstring option \<Rightarrow> jsstring \<Rightarrow> fetch_req list \<Rightarrow> (exn + jsval) \<times> fetch_req list" where
  "findZone plat tok name log =
     (case do_fetch plat (zone_request tok name) log of
        (Rejected st, log') \<Rightarrow> (Inl (RuntimeError st), log')
      | (Json body, log') \<Rightarrow>
          (first_result plat body (js ''Failed to find zone '' @ quoted name), log'))"

definition record_request :: "jsstring option \<Rightarrow> jsstring \<Rightarrow> jsstring \<Rightarrow> fetch_req" where
  "record_request tok zone_id name =
     \<lparr>fetch_url = cloudflare_url @ js ''/zones/'' @ zone_id @ js ''/dns_records?name='' @ name,
      fetch_method = None, fetch_headers = api_headers tok, fetch_body = None\<rparr>"

definition findRecord ::
  "platform \<Rightarrow> jsstring option \<Rightarrow> jsval \<Rightarrow> jsstring \<Rightarrow> fetch_req list
     \<Rightarrow> (exn + jsval) \<times> fetch_req list" where
  "findRecord plat tok zone name log =
     (case get_property zone (js ''id'') of
        None \<Rightarrow> (Inl (TypeError plat), log)
      | Some zid \<Rightarrow>
          (case ToString zid of
             None \<Rightarrow> (Inl (TypeError plat), log)
           | Some zone_id \<Rightarrow>
               (case do_fetch plat (record_request tok zone_id name) log of
                  (Rejected st, log') \<Rightarrow> (Inl (RuntimeError st), log')
                | (Json body, log') \<Rightarrow>
                    (first_result plat body (js ''Failed to find dns record '' @ quoted name),
                     log'))))"

definition update_request :: "jsstring option \<Rightarrow> jsstring \<Rightarrow> jsstring \<Rightarrow> jsval \<Rightarrow> fetch_req" where
  "update_request tok zone_id record_id record =
     \<lparr>fetch_url = cloudflare_url @ js ''/zones/'' @ zone_id @ js ''/dns_records/'' @ record_id,
      fetch_method = Some (js ''PUT''), fetch_headers = api_headers tok,
      fetch_body = Some record\<rparr>"

definition updateRecord ::
  "platform \<Rightarrow> jsstring option \<Rightarrow> jsval \<Rightarrow> jsval \<Rightarrow> fetch_req list
     \<Rightarrow> (exn + jsval) \<times> fetch_req list" where
  "updateRecord plat tok record v log =
     (case set_content record v of
        None \<Rightarrow> (Inl (TypeError plat), log)
      | Some record' \<Rightarrow>
          (case Option.bind (get_property record' (js ''zone_id'')) ToString of
             None \<Rightarrow> (Inl (TypeError plat), log)
           | Some zone_id \<Rightarrow>
               (case Option.bind (get_property record' (js ''id'')) ToString of
                  None \<Rightarrow> (Inl (TypeError plat), log)
                | Some record_id \<Rightarrow>
                    (case do_fetch plat (update_request tok zone_id record_id record') log of
                       (Rejected st, log') \<Rightarrow> (Inl (RuntimeError st), log')
                     | (Json body, log') \<Rightarrow>
                         (case get_property body (js ''success'') of
                            None \<Rightarrow> (Inl (TypeError plat), log')
                          | Some s \<Rightarrow>
                              if s \<noteq> JBool True
                              then (Inl (CloudflareApiException (js ''Failed to update dns record'')),
                                    log')
                              else (case Option.bind (get_property body (js ''result'')) element0 of
                                      None \<Rightarrow> (Inl (TypeError plat), log')
                                    | Some x \<Rightarrow> (Inr x, log')))))))"

section \<open>The handler\<close>

definition good :: response where
  "good = \<lparr>resp_body = Some (js ''good''), status = 200, statusText = None,
           resp_headers = [(js ''Content-Type'', HString (js ''text/plain;charset=UTF-8'')),
                           (js ''Cache-Control'', HString (js ''no-store''))]\<rparr>"

text \<open>
  \<open>informAPI\<close>: \<open>ip\<close> is the \<open>cf-connecting-ip\<close> header (\<open>None\<close> for \<open>null\<close>), which
  becomes the content of the record. The hostname goes through a template and a string
  concatenation only, so a \<open>null\<close> reads \<open>null\<close> there.
\<close>

definition informAPI ::
  "platform \<Rightarrow> jsstring option \<Rightarrow> URL \<Rightarrow> jsstring \<Rightarrow> jsstring \<Rightarrow> fetch_req list
     \<Rightarrow> (exn + response) \<times> fetch_req list" where
  "informAPI plat ip u name token log =
     (let hostname = (case searchParams_get (searchParams u) (js ''hostname'') of
                        None \<Rightarrow> js ''null'' | Some h \<Rightarrow> h);
          cloudflare = Cloudflare token
      in case findZone plat cloudflare name log of
           (Inl e, log1) \<Rightarrow> (Inl e, log1)
         | (Inr zone, log1) \<Rightarrow>
             (case findRecord plat cloudflare zone hostname log1 of
                (Inl e, log2) \<Rightarrow> (Inl e, log2)
              | (Inr record, log2) \<Rightarrow>
                  (case updateRecord plat cloudflare record
                          (case ip of None \<Rightarrow> JNull | Some a \<Rightarrow> JString a) log2 of
                     (Inl e, log3) \<Rightarrow> (Inl e, log3)
                   | (Inr result, log3) \<Rightarrow> (Inr good, log3))))"

text \<open>The two tests of \<open>handleRequest\<close> that the properties below speak of: the
  transport test (both parts hold) and the two \<open>case\<close> labels of the update.\<close>

definition secure :: "request \<Rightarrow> bool" where
  "secure request \<longleftrightarrow>
     protocol (url request) = js ''https:''
     \<and> headers request (js ''x-forwarded-proto'') = Some (js ''https'')"

definition update_path :: "request \<Rightarrow> bool" where
  "update_path request \<longleftrightarrow>
     pathname (url request) = js ''/nic/update'' \<or> pathname (url request) = js ''/update''"

definition handleRequest :: "platform \<Rightarrow> request \<Rightarrow> (exn + response) \<times> fetch_req list" where
  "handleRequest plat request =
     (let u = url request;
          reqip = headers request (js ''cf-connecting-ip'')
      in if js ''https:'' \<noteq> protocol u
            \<or> Some (js ''https'') \<noteq> headers request (js ''x-forwarded-proto'')
         then (Inl (BadRequestException (js ''Please use a HTTPS connection.'')), [])
         else if pathname u = js ''/myip''
         then (Inr \<lparr>resp_body = reqip, status = 200, statusText = None, resp_headers = []\<rparr>, [])
         else if pathname u = js ''/nic/update'' \<or> pathname u = js ''/update''
         then (if headers request (js ''authorization'') \<noteq> None
               then (case basicAuthentication plat request of
                       Inl e \<Rightarrow> (Inl e, [])
                     | Inr (username, password) \<Rightarrow>
                         (case verifyParameters u of
                            Inl e \<Rightarrow> (Inl e, [])
                          | Inr ok \<Rightarrow> informAPI plat reqip u username password []))
               else (Inl (BadRequestException (js ''Please provide valid credentials.'')), []))
         else if pathname u = js ''/favicon.ico'' \<or> pathname u = js ''/robots.txt''
         then (Inr \<lparr>resp_body = None, status = 204, statusText = None, resp_headers = []\<rparr>, [])
         else (Inr \<lparr>resp_body = Some (js ''Not Found.''), status = 404, statusText = None,
                    resp_headers = []\<rparr>, []))"

text \<open>
  The \<open>catch\<close> of the \<open>fetch\<close> listener. \<open>a || b\<close> takes \<open>b\<close> when \<open>a\<close> is
  undefined, the empty string or zero.
\<close>

definition message_of :: "exn \<Rightarrow> jsstring" where
  "message_of err =
     (case err_reason err of
        Some r \<Rightarrow> if r \<noteq> [] then r
                  else (case err_stack err of
                          Some st \<Rightarrow> if st \<noteq> [] then st else js ''Unknown Error''
                        | None \<Rightarrow> js ''Unknown Error'')
      | None \<Rightarrow> (case err_stack err of
                   Some st \<Rightarrow> if st \<noteq> [] then st else js ''Unknown Error''
                 | None \<Rightarrow> js ''Unknown Error''))"

definition catch_handler :: "exn \<Rightarrow> response" where
  "catch_handler err =
     (let message = message_of err in
      \<lparr>resp_body = Some message,
       status = (case err_status err of
                   Some n \<Rightarrow> if n \<noteq> 0 then n else 500
                 | None \<Rightarrow> 500),
       statusText = (case err_statusText err of
                       Some t \<Rightarrow> if t \<noteq> [] then Some t else None
                     | None \<Rightarrow> None),
       resp_headers = [(js ''Content-Type'', HString (js ''text/plain;charset=UTF-8'')),
                       (js ''Cache-Control'', HString (js ''no-store'')),
                       (js ''Content-Length'', HNumber (length message))]\<rparr>)"

definition fetch_listener :: "platform \<Rightarrow> request \<Rightarrow> response \<times> fetch_req list" where
  "fetch_listener plat request =
     (case handleRequest plat request of
        (Inl err, log) \<Rightarrow> (catch_handler err, log)
      | (Inr r, log) \<Rightarrow> (r, log))"

section \<open>An example runtime and example requests\<close>

text \<open>
  A runtime to run the handler on: the provider has one zone, \<open>example.com\<close>, with one
  record, \<open>home.example.com\<close>, answers every other lookup with an empty list and accepts
  every update. On a buffer of bytes below \<open>0x80\<close> the UTF-8 decoder gives one code unit
  for each byte and normalisation changes nothing: \<open>ascii_decode\<close> is the decoder on
  such buffers, and the examples use no other.
\<close>

definition ascii_decode :: "8 word list \<Rightarrow> jsstring" where
  "ascii_decode buffer = map ucast buffer"

definition json_ok :: "jsval \<Rightarrow> jsval" where
  "json_ok result =
     JObject [(js ''success'', JBool True), (js ''errors'', JArray []), (js ''result'', result)]"

definition example_zone :: jsval where
  "example_zone = JObject [(js ''id'', JString (js ''z1'')), (js ''name'', JString (js ''example.com''))]"

definition example_record :: jsval where
  "example_record =
     JObject [(js ''id'', JString (js ''r1'')), (js ''zone_id'', JString (js ''z1'')),
              (js ''name'', JString (js ''home.example.com'')), (js ''type'', JString (js ''A'')),
              (js ''content'', JString (js ''192.0.2.1''))]"

definition example_fetch :: "fetch_req list \<Rightarrow> fetch_req \<Rightarrow> fetch_outcome" where
  "example_fetch log rq =
     (if fetch_method rq = Some (js ''PUT'')
      then Json (json_ok (case fetch_body rq of None \<Rightarrow> JNull | Some r \<Rightarrow> r))
      else if fetch_url rq = js ''https://api.cloudflare.com/client/v4/zones?name=example.com''
      then Json (json_ok (JArray [example_zone]))
      else if fetch_url rq =
                js ''https://api.cloudflare.com/client/v4/zones/z1/dns_records?name=home.example.com''
      then Json (json_ok (JArray [example_record]))
      else Json (json_ok (JArray [])))"

definition example_platform :: platform where
  "example_platform =
     \<lparr>decode = ascii_decode, fetch = example_fetch,
      DOMException_stack = Some (js ''InvalidCharacterError: Invalid character''),
      TypeError_stack = Some (js ''TypeError: Cannot read properties of null'')\<rparr>"

definition example_request ::
  "string \<Rightarrow> string \<Rightarrow> (string \<times> string) list \<Rightarrow> (string \<times> string) list \<Rightarrow> request" where
  "example_request proto path params hdrs =
     \<lparr>url = \<lparr>protocol = js proto, pathname = js path,
              searchParams = map (\<lambda>(k, v). (js k, js v)) params\<rparr>,
      headers = map_of (map (\<lambda>(k, v). (js k, js v)) hdrs)\<rparr>"

text \<open>An update request over secure transport, from the address \<open>203.0.113.7\<close>.\<close>

definition example_update :: "string \<Rightarrow> (string \<times> string) list \<Rightarrow> request" where
  "example_update authorization params =
     example_request ''https:'' ''/update'' params
       [(''authorization'', authorization), (''x-forwarded-proto'', ''https''),
        (''cf-connecting-ip'', ''203.0.113.7'')]"

text \<open>
  Three updates of \<open>home.example.com\<close>: one with the credentials
  \<open>example.com:token123\<close>, which the provider serves with the three calls of
  \<open>example_calls\<close>; one with the credentials \<open>token123:token123\<close>, the token given
  as username too; and one with the credentials \<open>unknown.org:zone\<close>. The provider has
  no zone for the last two.
\<close>

definition example_good_update :: request where
  "example_good_update =
     example_update ''Basic ZXhhbXBsZS5jb206dG9rZW4xMjM='' [(''hostname'', ''home.example.com'')]"

definition example_calls :: "fetch_req list" where
  "example_calls =
     [zone_request (Some (js ''token123'')) (js ''example.com''),
      record_request (Some (js ''token123'')) (js ''z1'') (js ''home.example.com''),
      update_request (Some (js ''token123'')) (js ''z1'') (js ''r1'')
        (JObject [(js ''id'', JString (js ''r1'')), (js ''zone_id'', JString (js ''z1'')),
                  (js ''name'', JString (js ''home.example.com'')),
                  (js ''type'', JString (js ''A'')),
                  (js ''content'', JString (js ''203.0.113.7''))])]"

definition example_token_as_username_update :: request where
  "example_token_as_username_update =
     example_update ''Basic dG9rZW4xMjM6dG9rZW4xMjM='' [(''hostname'', ''home.example.com'')]"

text \<open>An update of the host name \<open>e.com\<close> with an acute accent on the \<open>e\<close>, the code unit \<open>0xE9\<close>
  (the query \<open>hostname=%C3%A9.com\<close>), for which the provider has no record.\<close>

definition example_non_ascii_update :: request where
  "example_non_ascii_update =
     example_update ''Basic ZXhhbXBsZS5jb206dG9rZW4xMjM=''
       [(''hostname'', CHR 0xE9 # ''.com'')]"

definition example_unknown_zone_update :: request where
  "example_unknown_zone_update =
     example_update ''Basic dW5rbm93bi5vcmc6em9uZQ=='' [(''hostname'', ''home.example.com'')]"

section \<open>Auxiliary facts\<close>

subsection \<open>String literals\<close>

lemma of_char_word_inj:
  "(of_nat (of_char c) :: 16 word) = of_nat (of_char d) \<longleftrightarrow> c = d"
proof
  assume h: "(of_nat (of_char c) :: 16 word) = of_nat (of_char d)"
  have c: "(of_char c :: nat) < 2 ^ 16" and d: "(of_char d :: nat) < 2 ^ 16"
    by (rule less_trans [OF nat_of_char_less_256], simp)+
  from h have "take_bit 16 (of_char c :: nat) = take_bit 16 (of_char d :: nat)"
    by (simp add: word_of_nat_eq_iff)
  with c d have "(of_char c :: nat) = of_char d"
    by (simp add: take_bit_nat_eq_self)
  then show "c = d" by simp
qed simp

lemma js_eq_iff [simp]: "js a = js b \<longleftrightarrow> a = b"
  unfolding js_def
  by (rule inj_map_eq_map) (simp add: inj_on_def of_char_word_inj)

lemma js_eq_Nil [simp]: "js a = [] \<longleftrightarrow> a = []" "[] = js a \<longleftrightarrow> a = []"
  by (auto simp add: js_def)

lemma js_append: "js (a @ b) = js a @ js b"
  by (simp add: js_def)

subsection \<open>Searching a string\<close>

lemma indexOf_None_iff: "indexOf s c = None \<longleftrightarrow> c \<notin> set s"
  by (induction s) auto

lemma indexOf_first: "c \<notin> set u \<Longrightarrow> indexOf (u @ c # p) c = Some (length u)"
  by (induction u) auto

subsection \<open>The router\<close>

lemma handleRequest_insecure:
  "\<not> secure request \<Longrightarrow>
     handleRequest plat request =
       (Inl (BadRequestException (js ''Please use a HTTPS connection.'')), [])"
  by (auto simp add: handleRequest_def secure_def Let_def)

lemma handleRequest_update:
  assumes "secure request" "update_path request"
  shows "handleRequest plat request =
     (if headers request (js ''authorization'') \<noteq> None
      then (case basicAuthentication plat request of
              Inl e \<Rightarrow> (Inl e, [])
            | Inr (username, password) \<Rightarrow>
                (case verifyParameters (url request) of
                   Inl e \<Rightarrow> (Inl e, [])
                 | Inr ok \<Rightarrow>
                     informAPI plat (headers request (js ''cf-connecting-ip'')) (url request)
                       username password []))
      else (Inl (BadRequestException (js ''Please provide valid credentials.'')), []))"
  using assms by (auto simp add: handleRequest_def secure_def update_path_def Let_def)

lemma handleRequest_other:
  assumes "secure request" "\<not> update_path request"
  shows "\<exists>r. handleRequest plat request = (Inr r, [])"
  using assms by (auto simp add: handleRequest_def secure_def update_path_def Let_def)

subsection \<open>Credentials and parameters\<close>

lemma basicAuthentication_Inr_header:
  "basicAuthentication plat request = Inr c \<Longrightarrow> headers request (js ''authorization'') \<noteq> None"
  by (cases "headers request (js ''authorization'')") (simp_all add: basicAuthentication_def)

lemma basicAuthentication_headers:
  "headers request' = headers request \<Longrightarrow>
     basicAuthentication plat request' = basicAuthentication plat request"
  by (simp add: basicAuthentication_def)

lemma basicAuthentication_decoded:
  assumes "headers request (js ''authorization'') = Some Authorization"
    and "split Authorization 0x20 = scheme # encoded # rest"
    and "atob encoded = Some binary"
  shows "basicAuthentication plat request =
     (let decoded = decode plat (Uint8Array_from binary);
          index = indexOf decoded 0x3A
      in if index = None \<or> test_CTL decoded
         then Inl (BadRequestException (js ''Invalid authorization value.''))
         else Inr (substring decoded 0 (the index), substring_from decoded (the index + 1)))"
  using assms by (simp add: basicAuthentication_def Let_def)

lemma basicAuthentication_reason:
  "basicAuthentication plat request = Inl e \<Longrightarrow> err_reason e = Some r \<Longrightarrow>
     r = js ''Invalid authorization value.''"
  by (auto simp add: basicAuthentication_def TypeError_def Let_def
      split: option.splits if_splits)

lemma verifyParameters_Inr:
  "verifyParameters u = Inr ok \<longleftrightarrow>
     (\<exists>h. searchParams_get (searchParams u) (js ''hostname'') = Some h \<and> h \<noteq> [])"
  by (auto simp add: verifyParameters_def object_truthy_def split: option.splits)

lemma verifyParameters_reason:
  "verifyParameters u = Inl e \<Longrightarrow> e = BadRequestException (js ''You must specify a hostname'')"
  by (auto simp add: verifyParameters_def object_truthy_def split: option.splits if_splits)

section \<open>Transport security\<close>

text \<open>
  C2. A request whose URL protocol is not \<open>https:\<close>, or whose \<open>x-forwarded-proto\<close>
  header is absent or differs from \<open>https\<close>, fails with \<open>BadRequestException\<close>, status
  400, whatever its path: the outcome names no path, nothing path-specific is returned and
  the provider is not called. The listener renders it with status 400.
\<close>

theorem insecure_transport_rejected:
  assumes "js ''https:'' \<noteq> protocol (url request)
           \<or> Some (js ''https'') \<noteq> headers request (js ''x-forwarded-proto'')"
  shows "handleRequest plat request =
           (Inl (BadRequestException (js ''Please use a HTTPS connection.'')), [])
         \<and> err_status (BadRequestException (js ''Please use a HTTPS connection.'')) = Some 400
         \<and> status (fst (fetch_listener plat request)) = 400
         \<and> snd (fetch_listener plat request) = []"
proof -
  from assms have "\<not> secure request" by (auto simp add: secure_def)
  then have "handleRequest plat request =
      (Inl (BadRequestException (js ''Please use a HTTPS connection.'')), [])"
    by (rule handleRequest_insecure)
  then show ?thesis by (simp add: fetch_listener_def catch_handler_def Let_def)
qed

theorem insecure_transport_rejected_witness:
  "js ''https:'' \<noteq> protocol (url (example_request ''http:'' ''/myip'' [] [(''x-forwarded-proto'', ''https'')]))
   \<and> handleRequest example_platform
        (example_request ''http:'' ''/myip'' [] [(''x-forwarded-proto'', ''https'')]) =
        (Inl (BadRequestException (js ''Please use a HTTPS connection.'')), [])
   \<and> status (fst (fetch_listener example_platform
        (example_request ''http:'' ''/myip'' [] [(''x-forwarded-proto'', ''https'')]))) = 400"
proof -
  let ?R = "example_request ''http:'' ''/myip'' [] [(''x-forwarded-proto'', ''https'')]"
  have h: "js ''https:'' \<noteq> protocol (url ?R)"
    by (simp add: example_request_def)
  then have "js ''https:'' \<noteq> protocol (url ?R)
      \<or> Some (js ''https'') \<noteq> headers ?R (js ''x-forwarded-proto'')" ..
  from insecure_transport_rejected [OF this, of example_platform] h
  show ?thesis by simp
qed

section \<open>Missing credentials\<close>

text \<open>
  C7, as the code has it. A request over secure transport on \<open>/nic/update\<close> or
  \<open>/update\<close> without an \<open>Authorization\<close> header fails with \<open>BadRequestException\<close>,
  status 400; the reason is \<open>Please provide valid credentials.\<close>, and the provider is not
  called.
\<close>

theorem missing_authorization_rejected:
  assumes "secure request" "update_path request"
    and "headers request (js ''authorization'') = None"
  shows "handleRequest plat request =
           (Inl (BadRequestException (js ''Please provide valid credentials.'')), [])
         \<and> err_status (BadRequestException (js ''Please provide valid credentials.'')) = Some 400
         \<and> err_reason (BadRequestException (js ''Please provide valid credentials.'')) =
             Some (js ''Please provide valid credentials.'')"
  using assms by (simp add: handleRequest_update)

theorem missing_authorization_rejected_witness:
  "secure (example_request ''https:'' ''/nic/update'' [(''hostname'', ''home.example.com'')]
             [(''x-forwarded-proto'', ''https'')])
   \<and> update_path (example_request ''https:'' ''/nic/update'' [(''hostname'', ''home.example.com'')]
             [(''x-forwarded-proto'', ''https'')])
   \<and> headers (example_request ''https:'' ''/nic/update'' [(''hostname'', ''home.example.com'')]
             [(''x-forwarded-proto'', ''https'')]) (js ''authorization'') = None
   \<and> handleRequest example_platform
        (example_request ''https:'' ''/nic/update'' [(''hostname'', ''home.example.com'')]
             [(''x-forwarded-proto'', ''https'')]) =
        (Inl (BadRequestException (js ''Please provide valid credentials.'')), [])"
proof -
  let ?R = "example_request ''https:'' ''/nic/update'' [(''hostname'', ''home.example.com'')]
             [(''x-forwarded-proto'', ''https'')]"
  have h1: "secure ?R" by (simp add: secure_def example_request_def)
  have h2: "update_path ?R" by (simp add: update_path_def example_request_def)
  have h3: "headers ?R (js ''authorization'') = None" by (simp add: example_request_def)
  from missing_authorization_rejected [OF h1 h2 h3, of example_platform]
  have "handleRequest example_platform ?R =
      (Inl (BadRequestException (js ''Please provide valid credentials.'')), [])" by simp
  with h1 h2 h3 show ?thesis by (intro conjI)
qed

text \<open>
  C7 as the specification words it gives the reason \<open>missing credentials\<close>. On
  \<open>/update\<close> over secure transport without an \<open>Authorization\<close> header the reason of
  the failure, and the body of the response, is another string.
\<close>

theorem missing_authorization_reason_counterexample:
  "secure (example_request ''https:'' ''/update'' [] [(''x-forwarded-proto'', ''https'')])
   \<and> update_path (example_request ''https:'' ''/update'' [] [(''x-forwarded-proto'', ''https'')])
   \<and> headers (example_request ''https:'' ''/update'' [] [(''x-forwarded-proto'', ''https'')])
        (js ''authorization'') = None
   \<and> fst (handleRequest example_platform
        (example_request ''https:'' ''/update'' [] [(''x-forwarded-proto'', ''https'')])) \<noteq>
        Inl (BadRequestException (js ''missing credentials''))
   \<and> resp_body (fst (fetch_listener example_platform
        (example_request ''https:'' ''/update'' [] [(''x-forwarded-proto'', ''https'')]))) \<noteq>
        Some (js ''missing credentials'')"
  by (simp add: secure_def update_path_def example_request_def handleRequest_def Let_def
      fetch_listener_def catch_handler_def message_of_def)

section \<open>Parameter validation\<close>

text \<open>
  C4. An update request (secure transport, path \<open>/nic/update\<close> or \<open>/update\<close>, an
  \<open>Authorization\<close> header from which \<open>basicAuthentication\<close> returns credentials) whose
  URL has no \<open>hostname\<close> parameter, or an empty first one, fails with
  \<open>BadRequestException\<close>, status 400, reason \<open>You must specify a hostname\<close>, and no call
  to the provider is made.
\<close>

theorem missing_hostname_rejected:
  assumes "secure request" "update_path request"
    and "basicAuthentication plat request = Inr (username, password)"
    and "searchParams_get (searchParams (url request)) (js ''hostname'') = None
         \<or> searchParams_get (searchParams (url request)) (js ''hostname'') = Some []"
  shows "handleRequest plat request =
           (Inl (BadRequestException (js ''You must specify a hostname'')), [])
         \<and> err_status (BadRequestException (js ''You must specify a hostname'')) = Some 400
         \<and> err_reason (BadRequestException (js ''You must specify a hostname'')) =
             Some (js ''You must specify a hostname'')
         \<and> snd (fetch_listener plat request) = []"
proof -
  from assms(4) have "verifyParameters (url request) =
      Inl (BadRequestException (js ''You must specify a hostname''))"
    by (auto simp add: verifyParameters_def object_truthy_def)
  with assms(1-3) basicAuthentication_Inr_header [OF assms(3)] show ?thesis
    by (simp add: handleRequest_update fetch_listener_def)
qed

theorem missing_hostname_rejected_witness:
  "secure (example_update ''Basic ZXhhbXBsZS5jb206dG9rZW4xMjM='' [(''ip'', ''192.0.2.1'')])
   \<and> update_path (example_update ''Basic ZXhhbXBsZS5jb206dG9rZW4xMjM='' [(''ip'', ''192.0.2.1'')])
   \<and> basicAuthentication example_platform
        (example_update ''Basic ZXhhbXBsZS5jb206dG9rZW4xMjM='' [(''ip'', ''192.0.2.1'')]) =
        Inr (js ''example.com'', js ''token123'')
   \<and> searchParams_get (searchParams (url
        (example_update ''Basic ZXhhbXBsZS5jb206dG9rZW4xMjM='' [(''ip'', ''192.0.2.1'')])))
        (js ''hostname'') = None
   \<and> handleRequest example_platform
        (example_update ''Basic ZXhhbXBsZS5jb206dG9rZW4xMjM='' [(''ip'', ''192.0.2.1'')]) =
        (Inl (BadRequestException (js ''You must specify a hostname'')), [])"
proof -
  let ?R = "example_update ''Basic ZXhhbXBsZS5jb206dG9rZW4xMjM='' [(''ip'', ''192.0.2.1'')]"
  have h1: "secure ?R" by (simp add: secure_def example_update_def example_request_def)
  have h2: "update_path ?R" by (simp add: update_path_def example_update_def example_request_def)
  have h3: "basicAuthentication example_platform ?R = Inr (js ''example.com'', js ''token123'')"
    by code_simp
  have h4: "searchParams_get (searchParams (url ?R)) (js ''hostname'') = None"
    by (simp add: searchParams_get_def example_update_def example_request_def)
  then have "searchParams_get (searchParams (url ?R)) (js ''hostname'') = None
      \<or> searchParams_get (searchParams (url ?R)) (js ''hostname'') = Some []" ..
  from missing_hostname_rejected [OF h1 h2 h3 this]
  have "handleRequest example_platform ?R =
      (Inl (BadRequestException (js ''You must specify a hostname'')), [])" by simp
  with h1 h2 h3 h4 show ?thesis by (intro conjI)
qed

section \<open>Credential parsing\<close>

text \<open>
  C5. When the header has a payload after its first space that \<open>atob\<close> accepts, and
  the decoded text has a colon and no control character (no code unit up to \<open>0x1F\<close>, nor
  \<open>0x7F\<close>), \<open>basicAuthentication\<close> returns the text before the first colon as the
  username and everything after that colon as the password, whatever colons the password
  has. The witness is the header \<open>Basic YWxpY2U6cEBzczp3b3Jk\<close>, the encoding of
  \<open>alice:p@ss:word\<close>.
\<close>

theorem credentials_split_at_first_colon:
  assumes "headers request (js ''authorization'') = Some Authorization"
    and "split Authorization 0x20 = scheme # encoded # rest"
    and "atob encoded = Some binary"
    and "decode plat (Uint8Array_from binary) = username @ [0x3A] @ password"
    and "0x3A \<notin> set username"
    and "\<forall>c \<in> set (username @ [0x3A] @ password). \<not> (c \<le> 0x1F \<or> c = 0x7F)"
  shows "basicAuthentication plat request = Inr (username, password)"
proof -
  let ?decoded = "username @ [0x3A] @ password"
  from assms(5) have i: "indexOf ?decoded 0x3A = Some (length username)"
    by (simp add: indexOf_first)
  from assms(6) have ctl: "\<not> test_CTL ?decoded"
    unfolding test_CTL_def list_ex_iff CTL_def by blast
  from i ctl assms(4) show ?thesis
    by (simp add: basicAuthentication_decoded [OF assms(1-3)] Let_def substring_def
        substring_from_def)
qed

theorem credentials_split_at_first_colon_witness:
  "headers (example_update ''Basic YWxpY2U6cEBzczp3b3Jk'' []) (js ''authorization'') =
     Some (js ''Basic YWxpY2U6cEBzczp3b3Jk'')
   \<and> split (js ''Basic YWxpY2U6cEBzczp3b3Jk'') 0x20 = [js ''Basic'', js ''YWxpY2U6cEBzczp3b3Jk'']
   \<and> atob (js ''YWxpY2U6cEBzczp3b3Jk'') = Some (js ''alice:p@ss:word'')
   \<and> decode example_platform (Uint8Array_from (js ''alice:p@ss:word'')) =
       js ''alice'' @ [0x3A] @ js ''p@ss:word''
   \<and> 0x3A \<notin> set (js ''alice'')
   \<and> \<not> list_ex (\<lambda>c. c \<le> 0x1F \<or> c = 0x7F) (js ''alice'' @ [0x3A] @ js ''p@ss:word'')
   \<and> basicAuthentication example_platform (example_update ''Basic YWxpY2U6cEBzczp3b3Jk'' []) =
       Inr (js ''alice'', js ''p@ss:word'')"
proof -
  let ?R = "example_update ''Basic YWxpY2U6cEBzczp3b3Jk'' []"
  have h1: "headers ?R (js ''authorization'') = Some (js ''Basic YWxpY2U6cEBzczp3b3Jk'')"
    by (simp add: example_update_def example_request_def)
  have h2: "split (js ''Basic YWxpY2U6cEBzczp3b3Jk'') 0x20 =
      js ''Basic'' # js ''YWxpY2U6cEBzczp3b3Jk'' # []"
    by code_simp
  have h3: "atob (js ''YWxpY2U6cEBzczp3b3Jk'') = Some (js ''alice:p@ss:word'')"
    by code_simp
  have h4: "decode example_platform (Uint8Array_from (js ''alice:p@ss:word'')) =
      js ''alice'' @ [0x3A] @ js ''p@ss:word''"
    by code_simp
  have h5: "0x3A \<notin> set (js ''alice'')"
    by code_simp
  have h6: "\<not> list_ex (\<lambda>c. c \<le> 0x1F \<or> c = 0x7F) (js ''alice'' @ [0x3A] @ js ''p@ss:word'')"
    by code_simp
  then have h6': "\<forall>c \<in> set (js ''alice'' @ [0x3A] @ js ''p@ss:word''). \<not> (c \<le> 0x1F \<or> c = 0x7F)"
    unfolding list_ex_iff by blast
  note c = credentials_split_at_first_colon [OF h1 h2 h3 h4 h5 h6']
  from h1 h2 h3 h4 h5 h6 c show ?thesis by (intro conjI)
qed

text \<open>
  C6, as the code has it. When the header has a payload that \<open>atob\<close> accepts and
  the decoded text has no colon, or has a control character (a code unit up to \<open>0x1F\<close>,
  or \<open>0x7F\<close>) anywhere, \<open>basicAuthentication\<close> fails with \<open>BadRequestException\<close>,
  status 400; the reason is \<open>Invalid authorization value.\<close>, with its full stop.
\<close>

theorem invalid_credentials_rejected:
  assumes "headers request (js ''authorization'') = Some Authorization"
    and "split Authorization 0x20 = scheme # encoded # rest"
    and "atob encoded = Some binary"
    and "decode plat (Uint8Array_from binary) = decoded"
    and "0x3A \<notin> set decoded \<or> (\<exists>c \<in> set decoded. c \<le> 0x1F \<or> c = 0x7F)"
  shows "basicAuthentication plat request =
           Inl (BadRequestException (js ''Invalid authorization value.''))
         \<and> err_status (BadRequestException (js ''Invalid authorization value.'')) = Some 400
         \<and> err_reason (BadRequestException (js ''Invalid authorization value.'')) =
             Some (js ''Invalid authorization value.'')"
proof -
  from assms(5) have "indexOf decoded 0x3A = None \<or> test_CTL decoded"
    unfolding indexOf_None_iff test_CTL_def list_ex_iff CTL_def by blast
  with assms(4) show ?thesis
    by (auto simp add: basicAuthentication_decoded [OF assms(1-3)] Let_def)
qed

theorem invalid_credentials_rejected_witness:
  "headers (example_update ''Basic YQA6Yg=='' []) (js ''authorization'') =
     Some (js ''Basic YQA6Yg=='')
   \<and> split (js ''Basic YQA6Yg=='') 0x20 = [js ''Basic'', js ''YQA6Yg=='']
   \<and> atob (js ''YQA6Yg=='') = Some [0x61, 0x00, 0x3A, 0x62]
   \<and> decode example_platform (Uint8Array_from [0x61, 0x00, 0x3A, 0x62]) =
       [0x61, 0x00, 0x3A, 0x62]
   \<and> (0x00 :: code_unit) \<in> set [0x61, 0x00, 0x3A, 0x62]
   \<and> (0x00 :: code_unit) \<le> 0x1F
   \<and> basicAuthentication example_platform (example_update ''Basic YQA6Yg=='' []) =
       Inl (BadRequestException (js ''Invalid authorization value.''))"
proof -
  let ?R = "example_update ''Basic YQA6Yg=='' []"
  have h1: "headers ?R (js ''authorization'') = Some (js ''Basic YQA6Yg=='')"
    by (simp add: example_update_def example_request_def)
  have h2: "split (js ''Basic YQA6Yg=='') 0x20 = js ''Basic'' # js ''YQA6Yg=='' # []"
    by code_simp
  have h3: "atob (js ''YQA6Yg=='') = Some [0x61, 0x00, 0x3A, 0x62]"
    by code_simp
  have h4: "decode example_platform (Uint8Array_from [0x61, 0x00, 0x3A, 0x62]) =
      [0x61, 0x00, 0x3A, 0x62]"
    by code_simp
  have h5: "(0x00 :: code_unit) \<in> set [0x61, 0x00, 0x3A, 0x62]" by simp
  have h6: "(0x00 :: code_unit) \<le> 0x1F" by simp
  from h5 h6 have "(0x3A :: code_unit) \<notin> set [0x61, 0x00, 0x3A, 0x62]
      \<or> (\<exists>c \<in> set [0x61, 0x00, 0x3A, 0x62 :: code_unit]. c \<le> 0x1F \<or> c = 0x7F)"
    by blast
  from invalid_credentials_rejected [OF h1 h2 h3 h4 this]
  have "basicAuthentication example_platform ?R =
      Inl (BadRequestException (js ''Invalid authorization value.''))" by simp
  with h1 h2 h3 h4 h5 h6 show ?thesis by (intro conjI)
qed

text \<open>
  C6 as the specification words it gives the reason \<open>Invalid authorization value\<close>.
  The header \<open>Basic YQA6Yg==\<close> decodes to \<open>a\<close>, a NUL, a colon and \<open>b\<close>; the failure
  is not the one with that reason, and the rendered body is not that string.
\<close>

theorem invalid_credentials_reason_counterexample:
  "map_option (\<lambda>binary. decode example_platform (Uint8Array_from binary)) (atob (js ''YQA6Yg=='')) =
     Some [0x61, 0x00, 0x3A, 0x62]
   \<and> test_CTL [0x61, 0x00, 0x3A, 0x62]
   \<and> basicAuthentication example_platform (example_update ''Basic YQA6Yg=='' []) \<noteq>
       Inl (BadRequestException (js ''Invalid authorization value''))
   \<and> resp_body (fst (fetch_listener example_platform (example_update ''Basic YQA6Yg=='' []))) \<noteq>
       Some (js ''Invalid authorization value'')"
proof -
  let ?R = "example_update ''Basic YQA6Yg=='' []"
  have a: "map_option (\<lambda>binary. decode example_platform (Uint8Array_from binary))
      (atob (js ''YQA6Yg=='')) = Some [0x61, 0x00, 0x3A, 0x62]"
    by code_simp
  have b: "test_CTL [0x61, 0x00, 0x3A, 0x62]"
    by code_simp
  have c: "basicAuthentication example_platform ?R =
      Inl (BadRequestException (js ''Invalid authorization value.''))"
    by code_simp
  have d: "handleRequest example_platform ?R =
      (Inl (BadRequestException (js ''Invalid authorization value.'')), [])"
    by code_simp
  from c have c': "basicAuthentication example_platform ?R \<noteq>
      Inl (BadRequestException (js ''Invalid authorization value''))" by simp
  from d have "resp_body (fst (fetch_listener example_platform ?R)) \<noteq>
      Some (js ''Invalid authorization value'')"
    by (simp add: fetch_listener_def catch_handler_def message_of_def Let_def)
  with a b c' show ?thesis by (intro conjI)
qed

section \<open>Rendering a failure\<close>

text \<open>
  Whatever is thrown, the \<open>catch\<close> of the listener answers with the status of the
  exception (500 when it has none), its status text (none when it has none), the reason as
  body (the stack, or \<open>Unknown Error\<close>, when there is no reason or an empty one), the
  content type \<open>text/plain;charset=UTF-8\<close>, \<open>Cache-Control: no-store\<close>, and a
  \<open>Content-Length\<close> that is \<open>message.length\<close>, the number of code units of the body. A
  failure of \<open>handleRequest\<close> is rendered so, with the calls made until then.
\<close>

lemma catch_handler_response:
  "status (catch_handler err) = (case err_status err of Some n \<Rightarrow> n | None \<Rightarrow> 500)
   \<and> statusText (catch_handler err) = err_statusText err
   \<and> (\<forall>r. err_reason err = Some r \<and> r \<noteq> [] \<longrightarrow> resp_body (catch_handler err) = Some r)
   \<and> (\<forall>st. (err_reason err = None \<or> err_reason err = Some []) \<and> err_stack err = Some st
           \<and> st \<noteq> [] \<longrightarrow> resp_body (catch_handler err) = Some st)
   \<and> ((err_reason err = None \<or> err_reason err = Some [])
         \<and> (err_stack err = None \<or> err_stack err = Some [])
        \<longrightarrow> resp_body (catch_handler err) = Some (js ''Unknown Error''))
   \<and> (\<exists>message. resp_body (catch_handler err) = Some message
         \<and> resp_headers (catch_handler err) =
             [(js ''Content-Type'', HString (js ''text/plain;charset=UTF-8'')),
              (js ''Cache-Control'', HString (js ''no-store'')),
              (js ''Content-Length'', HNumber (length message))])
   \<and> (\<forall>plat request log. handleRequest plat request = (Inl err, log)
         \<longrightarrow> fetch_listener plat request = (catch_handler err, log))"
  by (cases err) (auto simp add: catch_handler_def message_of_def Let_def fetch_listener_def)

text \<open>The number of code units is the number of bytes of an ASCII body, and is
  smaller for every other body.\<close>

lemma utf8_units_pos: "1 \<le> utf8_units c"
  by (simp add: utf8_units_def)

lemma utf8_length_ge: "length s \<le> utf8_length s"
proof (induction s rule: utf8_length.induct)
  case 1
  then show ?case by simp
next
  case (2 c)
  then show ?case using utf8_units_pos [of c] by simp
next
  case (3 c d r)
  then show ?case using utf8_units_pos [of c] by auto
qed

lemma utf8_length_ascii: "\<forall>c \<in> set s. c < 0x80 \<Longrightarrow> utf8_length s = length s"
proof (induction s rule: utf8_length.induct)
  case 1
  then show ?case by simp
next
  case (2 c)
  then show ?case by (simp add: utf8_units_def)
next
  case (3 c d r)
  from "3.prems" have c: "c < 0x80" and r: "\<forall>x \<in> set (d # r). x < 0x80" by simp_all
  from c have "\<not> 0xD800 \<le> c" by (simp add: word_less_def word_le_def)
  with "3.IH"(2) r c show ?case by (simp add: utf8_units_def)
qed

lemma utf8_length_non_ascii: "\<exists>c \<in> set s. 0x80 \<le> c \<Longrightarrow> length s < utf8_length s"
proof (induction s rule: utf8_length.induct)
  case 1
  then show ?case by simp
next
  case (2 c)
  then show ?case by (auto simp add: utf8_units_def)
next
  case (3 c d r)
  show ?case
  proof (cases "0xD800 \<le> c \<and> c \<le> 0xDBFF \<and> 0xDC00 \<le> d \<and> d \<le> 0xDFFF")
    case True
    with utf8_length_ge [of r] show ?thesis by simp
  next
    case False
    then have eq: "utf8_length (c # d # r) = utf8_units c + utf8_length (d # r)"
      by (simp only: utf8_length.simps if_not_P if_False)
    show ?thesis
    proof (cases "0x80 \<le> c")
      case True
      then have "2 \<le> utf8_units c" by (auto simp add: utf8_units_def)
      with utf8_length_ge [of "d # r"] show ?thesis unfolding eq by simp
    next
      case c: False
      with "3.prems" have "\<exists>x \<in> set (d # r). 0x80 \<le> x" by auto
      with "3.IH"(2) False have "length (d # r) < utf8_length (d # r)" by blast
      with utf8_units_pos [of c] show ?thesis unfolding eq by simp
    qed
  qed
qed

text \<open>
  C8. The claim asks for a \<open>Content-Length\<close> equal to the length of the body, and the
  comment in the source says that the header is returned for \<open>HEAD\<close> requests. The code
  sets it to \<open>message.length\<close>. For the update of a host name with an accented letter
  that the provider does not have, the response is the failure of the record lookup with
  status 500, status text \<open>Internal Server Error\<close>, the reason as body and
  \<open>Cache-Control: no-store\<close>, as the claim says; its \<open>Content-Length\<close> is 33, and the
  body, sent as \<open>text/plain;charset=UTF-8\<close>, has 34 bytes.
\<close>

theorem content_length_counts_code_units:
  "searchParams_get (searchParams (url example_non_ascii_update)) (js ''hostname'') =
     Some ([0xE9] @ js ''.com'')
   \<and> fst (handleRequest example_platform example_non_ascii_update) =
       Inl (CloudflareApiException
              (js ''Failed to find dns record '' @ [0x27] @ [0xE9] @ js ''.com'' @ [0x27]))
   \<and> status (fst (fetch_listener example_platform example_non_ascii_update)) = 500
   \<and> statusText (fst (fetch_listener example_platform example_non_ascii_update)) =
       Some (js ''Internal Server Error'')
   \<and> resp_body (fst (fetch_listener example_platform example_non_ascii_update)) =
       Some (js ''Failed to find dns record '' @ [0x27] @ [0xE9] @ js ''.com'' @ [0x27])
   \<and> resp_headers (fst (fetch_listener example_platform example_non_ascii_update)) =
       [(js ''Content-Type'', HString (js ''text/plain;charset=UTF-8'')),
        (js ''Cache-Control'', HString (js ''no-store'')),
        (js ''Content-Length'', HNumber 33)]
   \<and> utf8_length (js ''Failed to find dns record '' @ [0x27] @ [0xE9] @ js ''.com'' @ [0x27]) = 34"
proof -
  let ?R = example_non_ascii_update
  let ?m = "js ''Failed to find dns record '' @ [0x27] @ [0xE9] @ js ''.com'' @ [0x27]"
  have a: "searchParams_get (searchParams (url ?R)) (js ''hostname'') =
      Some ([0xE9] @ js ''.com'')"
    by code_simp
  have b: "fst (handleRequest example_platform ?R) = Inl (CloudflareApiException ?m)"
    by code_simp
  have fl: "fst (fetch_listener example_platform ?R) =
      \<lparr>resp_body = Some ?m, status = 500, statusText = Some (js ''Internal Server Error''),
       resp_headers = [(js ''Content-Type'', HString (js ''text/plain;charset=UTF-8'')),
                       (js ''Cache-Control'', HString (js ''no-store'')),
                       (js ''Content-Length'', HNumber 33)]\<rparr>"
    by code_simp
  have c: "status (fst (fetch_listener example_platform ?R)) = 500"
    unfolding fl by simp
  have d: "statusText (fst (fetch_listener example_platform ?R)) =
      Some (js ''Internal Server Error'')"
    unfolding fl by simp
  have e: "resp_body (fst (fetch_listener example_platform ?R)) = Some ?m"
    unfolding fl by simp
  have f: "resp_headers (fst (fetch_listener example_platform ?R)) =
       [(js ''Content-Type'', HString (js ''text/plain;charset=UTF-8'')),
        (js ''Cache-Control'', HString (js ''no-store'')),
        (js ''Content-Length'', HNumber 33)]"
    unfolding fl by simp
  have g: "utf8_length ?m = 34"
    by code_simp
  from a b c d e f g show ?thesis by (intro conjI)
qed

theorem content_length_counts_code_units_witness:
  "map_of (resp_headers (fst (fetch_listener example_platform example_non_ascii_update)))
     (js ''Content-Length'') = Some (HNumber 33)
   \<and> map_option utf8_length
        (resp_body (fst (fetch_listener example_platform example_non_ascii_update))) = Some 34"
proof -
  note t = content_length_counts_code_units [THEN conjunct2, THEN conjunct2, THEN conjunct2,
      THEN conjunct2]
  note b = t [THEN conjunct1]
  note h = t [THEN conjunct2, THEN conjunct1]
  note u = t [THEN conjunct2, THEN conjunct2]
  have "map_of [(js ''Content-Type'', HString (js ''text/plain;charset=UTF-8'')),
        (js ''Cache-Control'', HString (js ''no-store'')),
        (js ''Content-Length'', HNumber 33)] (js ''Content-Length'') = Some (HNumber 33)"
    by simp
  then have c1: "map_of (resp_headers (fst (fetch_listener example_platform
      example_non_ascii_update))) (js ''Content-Length'') = Some (HNumber 33)"
    by (simp only: h)
  have c2: "map_option utf8_length
      (resp_body (fst (fetch_listener example_platform example_non_ascii_update))) = Some 34"
    by (simp only: b u option.map)
  from c1 c2 show ?thesis by (rule conjI)
qed

section \<open>The update flow\<close>

subsection \<open>The three operations of the client\<close>

lemma first_result_Inr_iff:
  "first_result plat body failure = Inr x \<longleftrightarrow>
     get_property body (js ''success'') = Some (JBool True)
     \<and> (\<exists>r. get_property body (js ''result'') = Some r
            \<and> length_is_zero r = Some False \<and> element0 r = Some x)"
  by (auto simp add: first_result_def split: option.splits bool.splits)

lemma first_result_reason:
  "first_result plat body failure = Inl e \<Longrightarrow> err_reason e = Some r \<Longrightarrow> r = failure"
  by (auto simp add: first_result_def TypeError_def
      split: option.splits if_splits bool.splits)

lemma first_result_failure:
  assumes "get_property body (js ''success'') = Some s"
    and "s \<noteq> JBool True \<or> get_property body (js ''result'') = Some (JArray [])"
  shows "first_result plat body failure = Inl (CloudflareApiException failure)"
  using assms by (auto simp add: first_result_def)

lemma findZone_log: "snd (findZone plat tok name log) = log @ [zone_request tok name]"
  by (simp add: findZone_def do_fetch_def split: fetch_outcome.splits)

lemma findZone_reason:
  "findZone plat tok name log = (Inl e, log') \<Longrightarrow> err_reason e = Some r \<Longrightarrow>
     r = js ''Failed to find zone '' @ quoted name"
  by (auto simp add: findZone_def do_fetch_def split: fetch_outcome.splits
      dest: first_result_reason)

lemma findRecord_log:
  "snd (findRecord plat tok zone name log) = log
   \<or> (\<exists>zone_id. Option.bind (get_property zone (js ''id'')) ToString = Some zone_id
         \<and> snd (findRecord plat tok zone name log) = log @ [record_request tok zone_id name])"
  by (simp add: findRecord_def do_fetch_def split: fetch_outcome.splits option.splits)

lemma findRecord_Inr_log:
  "findRecord plat tok zone name log = (Inr rcd, log') \<Longrightarrow>
     \<exists>zone_id. Option.bind (get_property zone (js ''id'')) ToString = Some zone_id
         \<and> log' = log @ [record_request tok zone_id name]"
  by (auto simp add: findRecord_def do_fetch_def split: fetch_outcome.splits option.splits)

lemma findRecord_reason:
  "findRecord plat tok zone name log = (Inl e, log') \<Longrightarrow> err_reason e = Some r \<Longrightarrow>
     r = js ''Failed to find dns record '' @ quoted name"
  by (auto simp add: findRecord_def do_fetch_def TypeError_def
      split: fetch_outcome.splits option.splits dest: first_result_reason)

lemma updateRecord_log:
  "snd (updateRecord plat tok rcd v log) = log
   \<or> (\<exists>record' zone_id record_id.
         set_content rcd v = Some record'
         \<and> Option.bind (get_property record' (js ''zone_id'')) ToString = Some zone_id
         \<and> Option.bind (get_property record' (js ''id'')) ToString = Some record_id
         \<and> snd (updateRecord plat tok rcd v log) =
             log @ [update_request tok zone_id record_id record'])"
  by (auto simp add: updateRecord_def do_fetch_def split: fetch_outcome.splits option.splits)

lemma updateRecord_reason:
  "updateRecord plat tok rcd v log = (Inl e, log') \<Longrightarrow> err_reason e = Some r \<Longrightarrow>
     r = js ''Failed to update dns record''"
  by (auto simp add: updateRecord_def do_fetch_def TypeError_def
      split: fetch_outcome.splits option.splits if_splits)

subsection \<open>Their sequence\<close>

lemma informAPI_good:
  assumes "searchParams_get (searchParams u) (js ''hostname'') = Some hostname"
    and "findZone plat (Cloudflare token) name log = (Inr zone, log1)"
    and "findRecord plat (Cloudflare token) zone hostname log1 = (Inr rcd, log2)"
    and "updateRecord plat (Cloudflare token) rcd
           (case ip of None \<Rightarrow> JNull | Some a \<Rightarrow> JString a) log2 = (Inr result, log3)"
  shows "informAPI plat ip u name token log = (Inr good, log3)"
  using assms by (simp add: informAPI_def Let_def)

lemma informAPI_zone_failure:
  assumes "findZone plat (Cloudflare token) name log = (Inl e, log1)"
  shows "informAPI plat ip u name token log = (Inl e, log1)"
  using assms by (simp add: informAPI_def Let_def)

lemma informAPI_log:
  assumes "searchParams_get (searchParams u) (js ''hostname'') = Some hostname"
  shows "\<exists>rest. snd (informAPI plat ip u name token log) =
            log @ zone_request (Cloudflare token) name # rest
         \<and> (rest = []
            \<or> (\<exists>zone log1 zone_id.
                  findZone plat (Cloudflare token) name log = (Inr zone, log1)
                  \<and> Option.bind (get_property zone (js ''id'')) ToString = Some zone_id
                  \<and> (rest = [record_request (Cloudflare token) zone_id hostname]
                     \<or> (\<exists>rcd log2 record' zone_id' record_id.
                          findRecord plat (Cloudflare token) zone hostname log1 = (Inr rcd, log2)
                          \<and> set_content rcd (case ip of None \<Rightarrow> JNull | Some a \<Rightarrow> JString a) =
                              Some record'
                          \<and> Option.bind (get_property record' (js ''zone_id'')) ToString =
                              Some zone_id'
                          \<and> Option.bind (get_property record' (js ''id'')) ToString =
                              Some record_id
                          \<and> rest = [record_request (Cloudflare token) zone_id hostname,
                                    update_request (Cloudflare token) zone_id' record_id
                                      record']))))"
proof -
  let ?tok = "Cloudflare token"
  let ?v = "case ip of None \<Rightarrow> JNull | Some a \<Rightarrow> JString a"
  obtain r1 log1 where z: "findZone plat ?tok name log = (r1, log1)"
    by (cases "findZone plat ?tok name log")
  with findZone_log [of plat ?tok name log]
  have log1: "log1 = log @ [zone_request ?tok name]" by simp
  show ?thesis
  proof (cases r1)
    case (Inl e)
    with z log1 show ?thesis by (simp add: informAPI_def Let_def)
  next
    case (Inr zone)
    note zone = this
    obtain r2 log2 where rc: "findRecord plat ?tok zone hostname log1 = (r2, log2)"
      by (cases "findRecord plat ?tok zone hostname log1")
    show ?thesis
    proof (cases r2)
      case (Inl e)
      with z zone rc assms have out: "informAPI plat ip u name token log = (Inl e, log2)"
        by (simp add: informAPI_def Let_def)
      from findRecord_log [of plat ?tok zone hostname log1] rc
      have "log2 = log1
            \<or> (\<exists>zone_id. Option.bind (get_property zone (js ''id'')) ToString = Some zone_id
                  \<and> log2 = log1 @ [record_request ?tok zone_id hostname])"
        by simp
      with out log1 z zone show ?thesis by auto
    next
      case (Inr rcd)
      note rcd = this
      with findRecord_Inr_log rc obtain zone_id
        where zid: "Option.bind (get_property zone (js ''id'')) ToString = Some zone_id"
          and log2: "log2 = log1 @ [record_request ?tok zone_id hostname]"
        by blast
      obtain r3 log3 where up: "updateRecord plat ?tok rcd ?v log2 = (r3, log3)"
        by (cases "updateRecord plat ?tok rcd ?v log2")
      from z zone rc rcd up assms have out: "snd (informAPI plat ip u name token log) = log3"
        by (cases r3) (simp_all add: informAPI_def Let_def)
      from updateRecord_log [of plat ?tok rcd ?v log2] up
      have "log3 = log2
            \<or> (\<exists>record' zone_id' record_id.
                  set_content rcd ?v = Some record'
                  \<and> Option.bind (get_property record' (js ''zone_id'')) ToString = Some zone_id'
                  \<and> Option.bind (get_property record' (js ''id'')) ToString = Some record_id
                  \<and> log3 = log2 @ [update_request ?tok zone_id' record_id record'])"
        by simp
      then show ?thesis
      proof
        assume "log3 = log2"
        with out log1 log2 z zone zid show ?thesis by auto
      next
        assume "\<exists>record' zone_id' record_id.
                  set_content rcd ?v = Some record'
                  \<and> Option.bind (get_property record' (js ''zone_id'')) ToString = Some zone_id'
                  \<and> Option.bind (get_property record' (js ''id'')) ToString = Some record_id
                  \<and> log3 = log2 @ [update_request ?tok zone_id' record_id record']"
        then obtain record' zone_id' record_id
          where u: "set_content rcd ?v = Some record'"
            "Option.bind (get_property record' (js ''zone_id'')) ToString = Some zone_id'"
            "Option.bind (get_property record' (js ''id'')) ToString = Some record_id"
            "log3 = log2 @ [update_request ?tok zone_id' record_id record']"
          by blast
        from out log1 log2 u(4)
        have "snd (informAPI plat ip u name token log) =
            log @ zone_request ?tok name #
              [record_request ?tok zone_id hostname,
               update_request ?tok zone_id' record_id record']"
          by simp
        moreover from rc rcd
        have "findRecord plat ?tok zone hostname log1 = (Inr rcd, log2)" by simp
        ultimately show ?thesis using z zone zid u(1-3) by blast
      qed
    qed
  qed
qed

lemma informAPI_reason:
  assumes "searchParams_get (searchParams u) (js ''hostname'') = Some hostname"
    and "informAPI plat ip u name token log = (Inl e, log')"
    and "err_reason e = Some r"
  shows "r = js ''Failed to find zone '' @ quoted name
       \<or> r = js ''Failed to find dns record '' @ quoted hostname
       \<or> r = js ''Failed to update dns record''"
  using assms
  by (auto simp add: informAPI_def Let_def split: prod.splits sum.splits
      dest: findZone_reason findRecord_reason updateRecord_reason)

lemma handleRequest_informAPI:
  assumes "secure request" "update_path request"
    and "basicAuthentication plat request = Inr (username, password)"
    and "searchParams_get (searchParams (url request)) (js ''hostname'') = Some hostname"
    and "hostname \<noteq> []"
  shows "handleRequest plat request =
     informAPI plat (headers request (js ''cf-connecting-ip'')) (url request) username password []"
proof -
  from assms(4,5) have "verifyParameters (url request) = Inr ()"
    by (simp add: verifyParameters_Inr)
  with assms(1-3) basicAuthentication_Inr_header [OF assms(3)] show ?thesis
    by (simp add: handleRequest_update)
qed

subsection \<open>Success\<close>

text \<open>
  C1. For an update request (secure transport, path \<open>/nic/update\<close> or \<open>/update\<close>,
  credentials parsed, a non-empty \<open>hostname\<close>) in which the zone lookup, the record
  lookup and the record update each return, the handler returns the response with status
  200, body \<open>good\<close>, content type \<open>text/plain;charset=UTF-8\<close> and
  \<open>Cache-Control: no-store\<close>, and the listener passes it on.
\<close>

theorem update_success_responds_good:
  assumes "secure request" "update_path request"
    and "basicAuthentication plat request = Inr (username, password)"
    and "searchParams_get (searchParams (url request)) (js ''hostname'') = Some hostname"
    and "hostname \<noteq> []"
    and "findZone plat (Cloudflare password) username [] = (Inr zone, log1)"
    and "findRecord plat (Cloudflare password) zone hostname log1 = (Inr rcd, log2)"
    and "updateRecord plat (Cloudflare password) rcd
           (case headers request (js ''cf-connecting-ip'') of
              None \<Rightarrow> JNull | Some a \<Rightarrow> JString a) log2 = (Inr result, log3)"
  shows "handleRequest plat request =
           (Inr \<lparr>resp_body = Some (js ''good''), status = 200, statusText = None,
                 resp_headers = [(js ''Content-Type'', HString (js ''text/plain;charset=UTF-8'')),
                                 (js ''Cache-Control'', HString (js ''no-store''))]\<rparr>, log3)
         \<and> fetch_listener plat request =
           (\<lparr>resp_body = Some (js ''good''), status = 200, statusText = None,
             resp_headers = [(js ''Content-Type'', HString (js ''text/plain;charset=UTF-8'')),
                             (js ''Cache-Control'', HString (js ''no-store''))]\<rparr>, log3)"
proof -
  have "handleRequest plat request =
      informAPI plat (headers request (js ''cf-connecting-ip'')) (url request) username password []"
    using assms(1-5) by (rule handleRequest_informAPI)
  also have "\<dots> = (Inr good, log3)"
    using assms(4,6-8) by (rule informAPI_good)
  finally show ?thesis by (simp add: good_def fetch_listener_def)
qed

theorem update_success_responds_good_witness:
  "secure example_good_update
   \<and> update_path example_good_update
   \<and> basicAuthentication example_platform example_good_update =
       Inr (js ''example.com'', js ''token123'')
   \<and> searchParams_get (searchParams (url example_good_update)) (js ''hostname'') =
       Some (js ''home.example.com'')
   \<and> findZone example_platform (Cloudflare (js ''token123'')) (js ''example.com'') [] =
       (Inr example_zone, take 1 example_calls)
   \<and> findRecord example_platform (Cloudflare (js ''token123'')) example_zone
        (js ''home.example.com'') (take 1 example_calls) =
       (Inr example_record, take 2 example_calls)
   \<and> updateRecord example_platform (Cloudflare (js ''token123'')) example_record
        (JString (js ''203.0.113.7'')) (take 2 example_calls) =
       (Inr JUndefined, example_calls)
   \<and> handleRequest example_platform example_good_update =
       (Inr \<lparr>resp_body = Some (js ''good''), status = 200, statusText = None,
             resp_headers = [(js ''Content-Type'', HString (js ''text/plain;charset=UTF-8'')),
                             (js ''Cache-Control'', HString (js ''no-store''))]\<rparr>,
        example_calls)"
proof -
  let ?R = example_good_update
  let ?tok = "Cloudflare (js ''token123'')"
  have h1: "secure ?R"
    by (simp add: secure_def example_good_update_def example_update_def example_request_def)
  have h2: "update_path ?R"
    by (simp add: update_path_def example_good_update_def example_update_def example_request_def)
  have h3: "basicAuthentication example_platform ?R = Inr (js ''example.com'', js ''token123'')"
    by code_simp
  have h4: "searchParams_get (searchParams (url ?R)) (js ''hostname'') =
      Some (js ''home.example.com'')"
    by (simp add: searchParams_get_def example_good_update_def example_update_def
        example_request_def)
  have h5: "js ''home.example.com'' \<noteq> []" by simp
  have h6: "findZone example_platform ?tok (js ''example.com'') [] =
      (Inr example_zone, take 1 example_calls)"
    by code_simp
  have h7: "findRecord example_platform ?tok example_zone (js ''home.example.com'')
      (take 1 example_calls) = (Inr example_record, take 2 example_calls)"
    by code_simp
  have ip: "headers ?R (js ''cf-connecting-ip'') = Some (js ''203.0.113.7'')"
    by (simp add: example_good_update_def example_update_def example_request_def)
  have h8: "updateRecord example_platform ?tok example_record
      (case headers ?R (js ''cf-connecting-ip'') of None \<Rightarrow> JNull | Some a \<Rightarrow> JString a)
      (take 2 example_calls) = (Inr JUndefined, example_calls)"
    unfolding ip by code_simp
  from update_success_responds_good [OF h1 h2 h3 h4 h5 h6 h7 h8]
  have c: "handleRequest example_platform ?R =
       (Inr \<lparr>resp_body = Some (js ''good''), status = 200, statusText = None,
             resp_headers = [(js ''Content-Type'', HString (js ''text/plain;charset=UTF-8'')),
                             (js ''Cache-Control'', HString (js ''no-store''))]\<rparr>,
        example_calls)" ..
  from h8 have h8': "updateRecord example_platform ?tok example_record
      (JString (js ''203.0.113.7'')) (take 2 example_calls) = (Inr JUndefined, example_calls)"
    by (simp add: ip)
  from h1 h2 h3 h4 h6 h7 h8' c show ?thesis by (intro conjI)
qed

subsection \<open>A zone that is not found\<close>

text \<open>
  C3. For an update request in which the provider's answer to the zone lookup is a JSON
  value other than \<open>null\<close> that does not have \<open>success\<close> equal to \<open>true\<close>, or has
  it with an empty \<open>result\<close> list, the update
  fails with \<open>CloudflareApiException\<close>, status 500, reason
  \<open>Failed to find zone '<name>'\<close> with the username for the name, and the calls of the
  request are the zone lookup alone: no record lookup and no update is issued.
\<close>

theorem zone_failure_short_circuits:
  assumes "secure request" "update_path request"
    and "basicAuthentication plat request = Inr (username, password)"
    and "searchParams_get (searchParams (url request)) (js ''hostname'') = Some hostname"
    and "hostname \<noteq> []"
    and "fetch plat [] (zone_request (Cloudflare password) username) = Json body"
    and "get_property body (js ''success'') = Some s"
    and "s \<noteq> JBool True \<or> get_property body (js ''result'') = Some (JArray [])"
  shows "handleRequest plat request =
           (Inl (CloudflareApiException
                   (js ''Failed to find zone '' @ [0x27] @ username @ [0x27])),
            [zone_request (Cloudflare password) username])
         \<and> err_status (CloudflareApiException
                   (js ''Failed to find zone '' @ [0x27] @ username @ [0x27])) = Some 500
         \<and> snd (fetch_listener plat request) = [zone_request (Cloudflare password) username]
         \<and> fetch_method (zone_request (Cloudflare password) username) = None
         \<and> fetch_url (zone_request (Cloudflare password) username) =
             js ''https://api.cloudflare.com/client/v4/zones?name='' @ username"
proof -
  let ?e = "CloudflareApiException (js ''Failed to find zone '' @ [0x27] @ username @ [0x27])"
  let ?zr = "zone_request (Cloudflare password) username"
  from assms(7,8) have "first_result plat body (js ''Failed to find zone '' @ quoted username) =
      Inl ?e"
    by (simp add: first_result_failure quoted_def)
  with assms(6) have "findZone plat (Cloudflare password) username [] = (Inl ?e, [?zr])"
    by (simp add: findZone_def do_fetch_def)
  then have "informAPI plat (headers request (js ''cf-connecting-ip'')) (url request)
      username password [] = (Inl ?e, [?zr])"
    by (rule informAPI_zone_failure)
  with handleRequest_informAPI [OF assms(1-5)]
  have "handleRequest plat request = (Inl ?e, [?zr])" by simp
  then show ?thesis
    by (simp add: fetch_listener_def zone_request_def cloudflare_url_def js_append [symmetric])
qed

theorem zone_failure_short_circuits_witness:
  "secure example_unknown_zone_update
   \<and> update_path example_unknown_zone_update
   \<and> basicAuthentication example_platform example_unknown_zone_update =
       Inr (js ''unknown.org'', js ''zone'')
   \<and> searchParams_get (searchParams (url example_unknown_zone_update)) (js ''hostname'') =
       Some (js ''home.example.com'')
   \<and> fetch example_platform [] (zone_request (Cloudflare (js ''zone'')) (js ''unknown.org'')) =
       Json (json_ok (JArray []))
   \<and> get_property (json_ok (JArray [])) (js ''success'') = Some (JBool True)
   \<and> get_property (json_ok (JArray [])) (js ''result'') = Some (JArray [])
   \<and> handleRequest example_platform example_unknown_zone_update =
       (Inl (CloudflareApiException
               (js ''Failed to find zone '' @ [0x27] @ js ''unknown.org'' @ [0x27])),
        [zone_request (Cloudflare (js ''zone'')) (js ''unknown.org'')])"
proof -
  let ?R = example_unknown_zone_update
  have h1: "secure ?R"
    by (simp add: secure_def example_unknown_zone_update_def example_update_def
        example_request_def)
  have h2: "update_path ?R"
    by (simp add: update_path_def example_unknown_zone_update_def example_update_def
        example_request_def)
  have h3: "basicAuthentication example_platform ?R = Inr (js ''unknown.org'', js ''zone'')"
    by code_simp
  have h4: "searchParams_get (searchParams (url ?R)) (js ''hostname'') =
      Some (js ''home.example.com'')"
    by (simp add: searchParams_get_def example_unknown_zone_update_def example_update_def
        example_request_def)
  have h5: "js ''home.example.com'' \<noteq> []" by simp
  have h6: "fetch example_platform [] (zone_request (Cloudflare (js ''zone'')) (js ''unknown.org'')) =
      Json (json_ok (JArray []))"
    by code_simp
  have h7: "get_property (json_ok (JArray [])) (js ''success'') = Some (JBool True)"
    by (simp add: json_ok_def)
  have h8: "get_property (json_ok (JArray [])) (js ''result'') = Some (JArray [])"
    by (simp add: json_ok_def)
  then have h8': "JBool True \<noteq> JBool True
      \<or> get_property (json_ok (JArray [])) (js ''result'') = Some (JArray [])" ..
  from zone_failure_short_circuits [OF h1 h2 h3 h4 h5 h6 h7 h8']
  have c: "handleRequest example_platform ?R =
       (Inl (CloudflareApiException
               (js ''Failed to find zone '' @ [0x27] @ js ''unknown.org'' @ [0x27])),
        [zone_request (Cloudflare (js ''zone'')) (js ''unknown.org'')])" by (rule conjunct1)
  from h1 h2 h3 h4 h6 h7 h8 c show ?thesis by (intro conjI)
qed

subsection \<open>What the lookups are keyed by\<close>

text \<open>
  C10. An update request that reaches the client (secure transport, update path,
  credentials parsed, a non-empty \<open>hostname\<close>) always calls the provider, and its first
  call is the zone lookup \<open>/zones?name=\<close> followed by the Basic-auth username: the
  username is read from the headers alone, so no value of the URL enters that call. The
  \<open>hostname\<close> parameter enters the second call only, the record lookup in the zone
  that the provider returned; the update, if any, is addressed by the \<open>zone_id\<close> and
  \<open>id\<close> of the record that the provider returned.
\<close>

theorem zone_lookup_keyed_by_username:
  assumes "secure request" "update_path request"
    and "basicAuthentication plat request = Inr (username, password)"
    and "searchParams_get (searchParams (url request)) (js ''hostname'') = Some hostname"
    and "hostname \<noteq> []"
  shows "(\<exists>rest. snd (handleRequest plat request) =
            \<lparr>fetch_url = js ''https://api.cloudflare.com/client/v4/zones?name='' @ username,
             fetch_method = None, fetch_headers = api_headers (Cloudflare password),
             fetch_body = None\<rparr> # rest
          \<and> (rest = []
             \<or> (\<exists>zone log1 zone_id.
                   findZone plat (Cloudflare password) username [] = (Inr zone, log1)
                   \<and> Option.bind (get_property zone (js ''id'')) ToString = Some zone_id
                   \<and> (rest = [record_request (Cloudflare password) zone_id hostname]
                      \<or> (\<exists>rcd log2 record' zone_id' record_id.
                            findRecord plat (Cloudflare password) zone hostname log1 =
                              (Inr rcd, log2)
                            \<and> set_content rcd
                                 (case headers request (js ''cf-connecting-ip'') of
                                    None \<Rightarrow> JNull | Some a \<Rightarrow> JString a) = Some record'
                            \<and> Option.bind (get_property record' (js ''zone_id'')) ToString =
                                Some zone_id'
                            \<and> Option.bind (get_property record' (js ''id'')) ToString =
                                Some record_id
                            \<and> rest = [record_request (Cloudflare password) zone_id hostname,
                                      update_request (Cloudflare password) zone_id' record_id
                                        record'])))))
         \<and> (\<forall>request'. headers request' = headers request \<longrightarrow>
               basicAuthentication plat request' = Inr (username, password))"
proof -
  have zr: "zone_request (Cloudflare password) username =
      \<lparr>fetch_url = js ''https://api.cloudflare.com/client/v4/zones?name='' @ username,
       fetch_method = None, fetch_headers = api_headers (Cloudflare password),
       fetch_body = None\<rparr>"
    by (simp add: zone_request_def cloudflare_url_def js_append [symmetric])
  have "handleRequest plat request =
      informAPI plat (headers request (js ''cf-connecting-ip'')) (url request) username password []"
    using assms by (rule handleRequest_informAPI)
  with informAPI_log [OF assms(4), of plat "headers request (js ''cf-connecting-ip'')"
      username password "[]"]
  have "\<exists>rest. snd (handleRequest plat request) =
            zone_request (Cloudflare password) username # rest
          \<and> (rest = []
             \<or> (\<exists>zone log1 zone_id.
                   findZone plat (Cloudflare password) username [] = (Inr zone, log1)
                   \<and> Option.bind (get_property zone (js ''id'')) ToString = Some zone_id
                   \<and> (rest = [record_request (Cloudflare password) zone_id hostname]
                      \<or> (\<exists>rcd log2 record' zone_id' record_id.
                            findRecord plat (Cloudflare password) zone hostname log1 =
                              (Inr rcd, log2)
                            \<and> set_content rcd
                                 (case headers request (js ''cf-connecting-ip'') of
                                    None \<Rightarrow> JNull | Some a \<Rightarrow> JString a) = Some record'
                            \<and> Option.bind (get_property record' (js ''zone_id'')) ToString =
                                Some zone_id'
                            \<and> Option.bind (get_property record' (js ''id'')) ToString =
                                Some record_id
                            \<and> rest = [record_request (Cloudflare password) zone_id hostname,
                                      update_request (Cloudflare password) zone_id' record_id
                                        record']))))"
    by simp
  moreover have "\<forall>request'. headers request' = headers request \<longrightarrow>
      basicAuthentication plat request' = Inr (username, password)"
  proof (intro allI impI)
    fix request' :: request
    assume "headers request' = headers request"
    then have "basicAuthentication plat request' = basicAuthentication plat request"
      by (rule basicAuthentication_headers)
    with assms(3) show "basicAuthentication plat request' = Inr (username, password)"
      by simp
  qed
  ultimately show ?thesis unfolding zr by (rule conjI)
qed

theorem zone_lookup_keyed_by_username_witness:
  "secure example_good_update
   \<and> update_path example_good_update
   \<and> basicAuthentication example_platform example_good_update =
       Inr (js ''example.com'', js ''token123'')
   \<and> searchParams_get (searchParams (url example_good_update)) (js ''hostname'') =
       Some (js ''home.example.com'')
   \<and> snd (handleRequest example_platform example_good_update) = example_calls
   \<and> hd example_calls =
       \<lparr>fetch_url = js ''https://api.cloudflare.com/client/v4/zones?name='' @ js ''example.com'',
        fetch_method = None, fetch_headers = api_headers (Cloudflare (js ''token123'')),
        fetch_body = None\<rparr>
   \<and> basicAuthentication example_platform
        (example_good_update\<lparr>url := (url example_good_update)\<lparr>searchParams := []\<rparr>\<rparr>) =
       Inr (js ''example.com'', js ''token123'')"
proof -
  let ?R = example_good_update
  have h1: "secure ?R"
    by (simp add: secure_def example_good_update_def example_update_def example_request_def)
  have h2: "update_path ?R"
    by (simp add: update_path_def example_good_update_def example_update_def example_request_def)
  have h3: "basicAuthentication example_platform ?R = Inr (js ''example.com'', js ''token123'')"
    by code_simp
  have h4: "searchParams_get (searchParams (url ?R)) (js ''hostname'') =
      Some (js ''home.example.com'')"
    by (simp add: searchParams_get_def example_good_update_def example_update_def
        example_request_def)
  have h5: "js ''home.example.com'' \<noteq> []" by simp
  have l: "snd (handleRequest example_platform ?R) = example_calls"
    by code_simp
  note t = zone_lookup_keyed_by_username [OF h1 h2 h3 h4 h5]
  let ?z = "\<lparr>fetch_url = js ''https://api.cloudflare.com/client/v4/zones?name='' @ js ''example.com'',
        fetch_method = None, fetch_headers = api_headers (Cloudflare (js ''token123'')),
        fetch_body = None\<rparr>"
  have c1: "hd example_calls = ?z"
    by (simp add: example_calls_def zone_request_def cloudflare_url_def Cloudflare_def
        js_append [symmetric])
  from t [THEN conjunct2] have c2: "basicAuthentication example_platform
        (?R\<lparr>url := (url ?R)\<lparr>searchParams := []\<rparr>\<rparr>) =
       Inr (js ''example.com'', js ''token123'')"
    by simp
  from h1 h2 h3 h4 l c1 c2 show ?thesis by (intro conjI)
qed

subsection \<open>The reasons of failures\<close>

text \<open>
  C9, as the code has it. Whenever the handler fails with an exception that has a
  reason, the reason is one of five fixed messages, or the message of the zone lookup around
  the Basic-auth username, or the message of the record lookup around the \<open>hostname\<close>
  parameter, and it is the body of the response. No reason is computed from the password,
  the bearer token; the token occurs in a reason only when it occurs in one of these
  texts. (An error of the runtime has no reason; its body is the runtime's stack text.)
\<close>

theorem error_reason_sources:
  assumes "handleRequest plat request = (Inl err, log)"
    and "err_reason err = Some r"
  shows "(r = js ''Please use a HTTPS connection.''
          \<or> r = js ''Please provide valid credentials.''
          \<or> r = js ''Invalid authorization value.''
          \<or> r = js ''You must specify a hostname''
          \<or> r = js ''Failed to update dns record''
          \<or> (\<exists>username password.
                basicAuthentication plat request = Inr (username, password)
                \<and> r = js ''Failed to find zone '' @ [0x27] @ username @ [0x27])
          \<or> (\<exists>hostname.
                searchParams_get (searchParams (url request)) (js ''hostname'') = Some hostname
                \<and> r = js ''Failed to find dns record '' @ [0x27] @ hostname @ [0x27]))
         \<and> resp_body (fst (fetch_listener plat request)) = Some r"
proof -
  have src: "r = js ''Please use a HTTPS connection.''
          \<or> r = js ''Please provide valid credentials.''
          \<or> r = js ''Invalid authorization value.''
          \<or> r = js ''You must specify a hostname''
          \<or> r = js ''Failed to update dns record''
          \<or> (\<exists>username password.
                basicAuthentication plat request = Inr (username, password)
                \<and> r = js ''Failed to find zone '' @ [0x27] @ username @ [0x27])
          \<or> (\<exists>hostname.
                searchParams_get (searchParams (url request)) (js ''hostname'') = Some hostname
                \<and> r = js ''Failed to find dns record '' @ [0x27] @ hostname @ [0x27])"
  proof (cases "secure request")
    case False
    from handleRequest_insecure [OF this, of plat] assms show ?thesis by simp
  next
    case True
    note sec = this
    show ?thesis
    proof (cases "update_path request")
      case False
      from handleRequest_other [OF sec this, of plat] assms(1) show ?thesis by auto
    next
      case True
      note upd = handleRequest_update [OF sec this, of plat]
      show ?thesis
      proof (cases "headers request (js ''authorization'')")
        case None
        with upd assms show ?thesis by simp
      next
        case (Some a)
        note hdr = this
        show ?thesis
        proof (cases "basicAuthentication plat request")
          case (Inl e)
          with upd hdr assms have "basicAuthentication plat request = Inl err" by simp
          from basicAuthentication_reason [OF this assms(2)] show ?thesis by simp
        next
          case (Inr c)
          obtain username password where c: "c = (username, password)" by (cases c)
          show ?thesis
          proof (cases "verifyParameters (url request)")
            case (Inl e)
            with upd hdr Inr c assms(1) have "verifyParameters (url request) = Inl err" by simp
            from verifyParameters_reason [OF this] assms(2) show ?thesis by simp
          next
            case (Inr ok)
            then obtain hostname
              where h: "searchParams_get (searchParams (url request)) (js ''hostname'') =
                  Some hostname"
              by (auto simp add: verifyParameters_Inr)
            from upd hdr \<open>basicAuthentication plat request = Inr c\<close> c Inr assms(1)
            have "informAPI plat (headers request (js ''cf-connecting-ip'')) (url request)
                username password [] = (Inl err, log)" by simp
            from informAPI_reason [OF h this assms(2)]
              \<open>basicAuthentication plat request = Inr c\<close> c h
            show ?thesis by (auto simp add: quoted_def)
          qed
        qed
      qed
    qed
  qed
  then have "r \<noteq> []" by auto
  with assms have "resp_body (fst (fetch_listener plat request)) = Some r"
    by (simp add: fetch_listener_def catch_handler_def message_of_def Let_def)
  with src show ?thesis by (rule conjI)
qed

theorem error_reason_sources_witness:
  "handleRequest example_platform example_unknown_zone_update =
     (Inl (CloudflareApiException
             (js ''Failed to find zone '' @ [0x27] @ js ''unknown.org'' @ [0x27])),
      [zone_request (Cloudflare (js ''zone'')) (js ''unknown.org'')])
   \<and> err_reason (CloudflareApiException
             (js ''Failed to find zone '' @ [0x27] @ js ''unknown.org'' @ [0x27])) =
       Some (js ''Failed to find zone '' @ [0x27] @ js ''unknown.org'' @ [0x27])
   \<and> resp_body (fst (fetch_listener example_platform example_unknown_zone_update)) =
       Some (js ''Failed to find zone '' @ [0x27] @ js ''unknown.org'' @ [0x27])"
proof -
  let ?R = example_unknown_zone_update
  let ?r = "js ''Failed to find zone '' @ [0x27] @ js ''unknown.org'' @ [0x27]"
  have h1: "handleRequest example_platform ?R =
     (Inl (CloudflareApiException ?r), [zone_request (Cloudflare (js ''zone'')) (js ''unknown.org'')])"
    by code_simp
  have h2: "err_reason (CloudflareApiException ?r) = Some ?r" by simp
  from error_reason_sources [OF h1 h2]
  have c: "resp_body (fst (fetch_listener example_platform ?R)) = Some ?r"
    by (rule conjunct2)
  from h1 h2 c show ?thesis by (intro conjI)
qed

text \<open>
  C9 as the specification words it: the token never occurs in a reason. With the
  credentials \<open>token123:token123\<close> the token is \<open>token123\<close>, it is sent to the
  provider as the bearer token, the zone lookup for the username finds nothing, and the
  reason in the body of the response contains the token.
\<close>

theorem token_in_reason_counterexample:
  "basicAuthentication example_platform example_token_as_username_update =
     Inr (js ''token123'', js ''token123'')
   \<and> map fetch_headers (snd (handleRequest example_platform example_token_as_username_update)) =
       [[(js ''Content-Type'', js ''application/json''),
         (js ''Authorization'', js ''Bearer token123'')]]
   \<and> resp_body (fst (fetch_listener example_platform example_token_as_username_update)) =
       Some (js ''Failed to find zone '' @ [0x27] @ js ''token123'' @ [0x27])
   \<and> sublist (js ''token123'') (js ''Failed to find zone '' @ [0x27] @ js ''token123'' @ [0x27])"
proof -
  let ?R = example_token_as_username_update
  have a: "basicAuthentication example_platform ?R = Inr (js ''token123'', js ''token123'')"
    by code_simp
  have b: "map fetch_headers (snd (handleRequest example_platform ?R)) =
       [[(js ''Content-Type'', js ''application/json''),
         (js ''Authorization'', js ''Bearer token123'')]]"
    by code_simp
  have c: "resp_body (fst (fetch_listener example_platform ?R)) =
       Some (js ''Failed to find zone '' @ [0x27] @ js ''token123'' @ [0x27])"
    by code_simp
  have "js ''Failed to find zone '' @ [0x27] @ js ''token123'' @ [0x27] =
      (js ''Failed to find zone '' @ [0x27]) @ js ''token123'' @ [0x27]"
    by simp
  then have d: "sublist (js ''token123'')
      (js ''Failed to find zone '' @ [0x27] @ js ''token123'' @ [0x27])"
    by (simp only: sublist_appendI)
  from a b c d show ?thesis by (intro conjI)
qed

end
